theory Spec2Isabelle
  imports Complex_Main "HOL-Library.Sublist" "HOL-Library.Log_Nat"
begin

section \<open>Strings\<close>

text \<open>
  A JavaScript string is a sequence of UTF-16 code units. The regular expressions of the
  engine carry no \<open>u\<close> flag, so they match code unit by code unit, and every
  character of the engine's vocabulary lies in the Basic Multilingual Plane: one code unit
  each. A string is therefore a list of code units, written as numbers; ASCII text is
  written with \<open>asc\<close>.
\<close>

type_synonym jstring = "nat list"

definition asc :: "string \<Rightarrow> jstring" where
  "asc s = map of_char s"

text \<open>A set of code units given by inclusive ranges, as a character class is written.\<close>

definition in_ranges :: "(nat \<times> nat) list \<Rightarrow> nat \<Rightarrow> bool" where
  "in_ranges rs c = list_ex (\<lambda>(lo, hi). lo \<le> c \<and> c \<le> hi) rs"

text \<open>
  White space as \<open>String.prototype.trim\<close> and the class \<open>\s\<close> read it (the
  same set: WhiteSpace and LineTerminator of ECMAScript).
\<close>

definition space_ranges :: "(nat \<times> nat) list" where
  "space_ranges =
     [(9, 13), (0x20, 0x20), (0xA0, 0xA0), (0x1680, 0x1680), (0x2000, 0x200A),
      (0x2028, 0x2029), (0x202F, 0x202F), (0x205F, 0x205F), (0x3000, 0x3000), (0xFEFF, 0xFEFF)]"

definition is_space :: "nat \<Rightarrow> bool" where
  "is_space c = in_ranges space_ranges c"

definition is_digit :: "nat \<Rightarrow> bool" where
  "is_digit c \<longleftrightarrow> 0x30 \<le> c \<and> c \<le> 0x39"

text \<open>The class \<open>[\<dots>]\<close> of line 156: the full-width comma, the ideographic full
  stop, and the full-width exclamation mark, question mark, semicolon and colon.\<close>

definition is_cn_punct :: "nat \<Rightarrow> bool" where
  "is_cn_punct c \<longleftrightarrow> c \<in> set [0xFF0C, 0x3002, 0xFF01, 0xFF1F, 0xFF1B, 0xFF1A]"

subsection \<open>preprocessInput\<close>

text \<open>\<open>input.trim()\<close>\<close>

definition trim :: "jstring \<Rightarrow> jstring" where
  "trim s = rev (dropWhile is_space (rev (dropWhile is_space s)))"

text \<open>\<open>.replace(/\s+/g, ' ')\<close>: every maximal run of white space becomes one space.\<close>

function collapse_ws :: "jstring \<Rightarrow> jstring" where
  "collapse_ws [] = []"
| "collapse_ws (x # xs) =
     (if is_space x then 0x20 # collapse_ws (dropWhile is_space xs)
      else x # collapse_ws xs)"
  by pat_completeness auto
termination
  by (relation "measure length") (auto simp: less_Suc_eq_le length_dropWhile_le)

text \<open>\<open>.replace(/[\<dots>]/g, '')\<close>: the six punctuation marks are deleted.\<close>

definition strip_punct :: "jstring \<Rightarrow> jstring" where
  "strip_punct s = filter (\<lambda>c. \<not> is_cn_punct c) s"

text \<open>The three steps in the order of the source: trim, collapse, delete punctuation.\<close>

definition preprocessInput :: "jstring \<Rightarrow> jstring" where
  "preprocessInput input = strip_punct (collapse_ws (trim input))"

section \<open>Regular expressions\<close>

text \<open>
  The patterns of the engine, as data. A character class is a list of inclusive ranges,
  possibly negated. Every quantifier \<open>*\<close>, \<open>+\<close>, \<open>{m,n}\<close> and \<open>*?\<close> of the
  source stands on a single character class; \<open>?\<close> stands on a class or a group.
\<close>

datatype cclass = Ranges "(nat \<times> nat) list" | NotRanges "(nat \<times> nat) list"

fun in_class :: "cclass \<Rightarrow> nat \<Rightarrow> bool" where
  "in_class (Ranges rs) c = in_ranges rs c"
| "in_class (NotRanges rs) c = (\<not> in_ranges rs c)"

datatype re =
    Cls cclass                  \<comment> \<open>one character of a class\<close>
  | Lit jstring                 \<comment> \<open>a literal word\<close>
  | Seq re re
  | Alt re re                   \<comment> \<open>\<open>a|b\<close>: \<open>a\<close> is tried first\<close>
  | Opt re                      \<comment> \<open>\<open>a?\<close>, greedy\<close>
  | Rep nat "nat option" cclass \<comment> \<open>\<open>c{lo,hi}\<close>, greedy; no upper bound when \<open>None\<close>\<close>
  | LazyStar cclass             \<comment> \<open>\<open>c*?\<close>\<close>
  | Grp nat re                  \<comment> \<open>capture group number \<open>n\<close>\<close>
  | Bos                         \<comment> \<open>\<open>^\<close>\<close>
  | Eos                         \<comment> \<open>\<open>$\<close>\<close>

abbreviation Star :: "cclass \<Rightarrow> re" where "Star k \<equiv> Rep 0 None k"
abbreviation Plus :: "cclass \<Rightarrow> re" where "Plus k \<equiv> Rep 1 None k"

text \<open>
  A matcher state: the index reached, the rest of the subject, the captures so far. The
  backtracking matcher returns every way of matching, in the order in which the
  backtracking of ECMAScript tries them; the first one is the match.
\<close>

type_synonym captures = "nat \<Rightarrow> jstring option"
type_synonym mstate = "nat \<times> jstring \<times> captures"

definition run_len :: "cclass \<Rightarrow> jstring \<Rightarrow> nat" where
  "run_len k s = length (takeWhile (in_class k) s)"

fun rm :: "re \<Rightarrow> mstate \<Rightarrow> mstate list" where
  "rm (Cls k) (i, s, c) =
     (case s of [] \<Rightarrow> [] | x # xs \<Rightarrow> if in_class k x then [(Suc i, xs, c)] else [])"
| "rm (Lit w) (i, s, c) =
     (if take (length w) s = w then [(i + length w, drop (length w) s, c)] else [])"
| "rm (Seq a b) st = concat (map (rm b) (rm a st))"
| "rm (Alt a b) st = rm a st @ rm b st"
| "rm (Opt a) st = rm a st @ [st]"
| "rm (Rep lo hi k) (i, s, c) =
     (let n = (case hi of None \<Rightarrow> run_len k s | Some h \<Rightarrow> min h (run_len k s))
      in map (\<lambda>j. (i + j, drop j s, c)) (rev [lo..<Suc n]))"
| "rm (LazyStar k) (i, s, c) =
     map (\<lambda>j. (i + j, drop j s, c)) [0..<Suc (run_len k s)]"
| "rm (Grp n a) (i, s, c) =
     map (\<lambda>(i', s', c'). (i', s', c'(n \<mapsto> take (i' - i) s))) (rm a (i, s, c))"
| "rm Bos (i, s, c) = (if i = 0 then [(i, s, c)] else [])"
| "rm Eos (i, s, c) = (if s = [] then [(i, s, c)] else [])"

text \<open>
  \<open>String.prototype.match\<close> with a pattern without the \<open>g\<close> flag: the first start
  index, from 0 up, at which the pattern matches; the result holds the index, the end of
  the match and the capture groups (\<open>None\<close> is \<open>undefined\<close>).
\<close>

record rmatch =
  m_index :: nat
  m_end :: nat
  m_groups :: captures

fun exec_from :: "re \<Rightarrow> nat \<Rightarrow> jstring \<Rightarrow> rmatch option" where
  "exec_from r i s =
     (case rm r (i, s, Map.empty) of
        (j, s', c) # _ \<Rightarrow> Some \<lparr>m_index = i, m_end = j, m_groups = c\<rparr>
      | [] \<Rightarrow> (case s of [] \<Rightarrow> None | _ # t \<Rightarrow> exec_from r (Suc i) t))"

definition js_match :: "re \<Rightarrow> jstring \<Rightarrow> rmatch option" where
  "js_match r s = exec_from r 0 s"

text \<open>Capture group \<open>n\<close> of a match, the empty string when it is undefined (as
  \<open>$n\<close> in a replacement string reads it).\<close>

definition group_or_empty :: "rmatch \<Rightarrow> nat \<Rightarrow> jstring" where
  "group_or_empty m n = (case m_groups m n of None \<Rightarrow> [] | Some g \<Rightarrow> g)"

section \<open>Numbers\<close>

text \<open>
  A Number is an IEEE 754 binary64 value. A finite one is held as the rational it
  denotes; the two zeros are one value here (every literal of the engine is unsigned and
  no handler divides by a computed zero, so the sign of a zero is never observed).
\<close>

datatype jsnum = Fin rat | PInf | NInf | NaN

definition pow2 :: "int \<Rightarrow> rat" where
  "pow2 e = (if 0 \<le> e then 2 ^ nat e else 1 / 2 ^ nat (- e))"

definition pow10 :: "int \<Rightarrow> rat" where
  "pow10 e = (if 0 \<le> e then 10 ^ nat e else 1 / 10 ^ nat (- e))"

text \<open>The integer nearest to \<open>x\<close>, a tie going to the even one.\<close>

definition round_half_even :: "rat \<Rightarrow> int" where
  "round_half_even x =
     (let f = \<lfloor>x\<rfloor>; d = x - of_int f
      in if d < 1 / 2 then f else if 1 / 2 < d then f + 1
         else if even f then f else f + 1)"

text \<open>\<open>\<lfloor>log\<^sub>2 n\<rfloor>\<close> of a positive integer, and of a positive rational.\<close>

function ilog2i :: "int \<Rightarrow> int" where
  "ilog2i n = (if n \<le> 1 then 0 else 1 + ilog2i (n div 2))"
  by pat_completeness auto
termination
  by (relation "measure nat") auto

declare ilog2i.simps [simp del]

definition ilog2 :: "rat \<Rightarrow> int" where
  "ilog2 x = (if 1 \<le> x then ilog2i \<lfloor>x\<rfloor> else - (ilog2i (\<lceil>1 / x\<rceil> - 1) + 1))"

text \<open>
  The Number value of a real: round to nearest, ties to even, with 53 bits of precision,
  the exponent of the last place no smaller than \<open>-1074\<close> (subnormals), and overflow
  to an infinity from \<open>2\<^sup>1\<^sup>0\<^sup>2\<^sup>4\<close>.
\<close>

definition fl :: "rat \<Rightarrow> jsnum" where
  "fl x =
     (if x = 0 then Fin 0
      else let a = \<bar>x\<bar>;
               q = max (ilog2 a - 52) (- 1074);
               r = of_int (round_half_even (a / pow2 q)) * pow2 q
           in if pow2 1024 \<le> r then (if 0 < x then PInf else NInf)
              else Fin (if 0 < x then r else - r))"

text \<open>The arithmetic operators on Numbers.\<close>

fun num_neg :: "jsnum \<Rightarrow> jsnum" where
  "num_neg (Fin a) = Fin (- a)"
| "num_neg PInf = NInf"
| "num_neg NInf = PInf"
| "num_neg NaN = NaN"

fun num_add :: "jsnum \<Rightarrow> jsnum \<Rightarrow> jsnum" where
  "num_add (Fin a) (Fin b) = fl (a + b)"
| "num_add NaN _ = NaN"
| "num_add _ NaN = NaN"
| "num_add PInf NInf = NaN"
| "num_add NInf PInf = NaN"
| "num_add PInf _ = PInf"
| "num_add NInf _ = NInf"
| "num_add _ PInf = PInf"
| "num_add _ NInf = NInf"

definition num_sub :: "jsnum \<Rightarrow> jsnum \<Rightarrow> jsnum" where
  "num_sub x y = num_add x (num_neg y)"

definition num_sign :: "jsnum \<Rightarrow> int" where
  "num_sign x =
     (case x of Fin a \<Rightarrow> (if a < 0 then - 1 else if a = 0 then 0 else 1)
      | PInf \<Rightarrow> 1 | NInf \<Rightarrow> - 1 | NaN \<Rightarrow> 0)"

definition num_mul :: "jsnum \<Rightarrow> jsnum \<Rightarrow> jsnum" where
  "num_mul x y =
     (case (x, y) of
        (Fin a, Fin b) \<Rightarrow> fl (a * b)
      | _ \<Rightarrow>
          if x = NaN \<or> y = NaN \<or> num_sign x * num_sign y = 0 then NaN
          else if 0 < num_sign x * num_sign y then PInf else NInf)"

definition num_div :: "jsnum \<Rightarrow> jsnum \<Rightarrow> jsnum" where
  "num_div x y =
     (case (x, y) of
        (Fin a, Fin b) \<Rightarrow>
          if b = 0 then (if a = 0 then NaN else if 0 < a then PInf else NInf)
          else fl (a / b)
      | (Fin a, _) \<Rightarrow> (if y = NaN then NaN else Fin 0)
      | (_, Fin b) \<Rightarrow>
          if x = NaN then NaN
          else if 0 < num_sign x * (if b < 0 then - 1 else 1) then PInf else NInf
      | _ \<Rightarrow> NaN)"

subsection \<open>Numbers from strings\<close>

definition digits_val :: "jstring \<Rightarrow> int" where
  "digits_val ds = foldl (\<lambda>a d. 10 * a + (int d - 0x30)) 0 ds"

text \<open>The exponent part \<open>e\<plusminus>ddd\<close> at the head of a string, 0 when there is none.\<close>

definition exponent_part :: "jstring \<Rightarrow> int" where
  "exponent_part s =
     (case s of
        [] \<Rightarrow> 0
      | c # r \<Rightarrow>
          if c = 0x65 \<or> c = 0x45 then
            (case r of
               [] \<Rightarrow> 0
             | d # r' \<Rightarrow>
                 if d = 0x2D then
                   - digits_val (takeWhile is_digit r')
                 else if d = 0x2B then digits_val (takeWhile is_digit r')
                 else digits_val (takeWhile is_digit r))
          else 0)"

text \<open>
  \<open>parseFloat\<close>: leading white space is skipped, the longest prefix that is a decimal
  literal (a sign, \<open>Infinity\<close> or digits with an optional fraction and exponent) is
  read, and its value is rounded to a Number; \<open>NaN\<close> when no prefix is a literal.
\<close>

definition parseFloat :: "jstring \<Rightarrow> jsnum" where
  "parseFloat s =
     (let t = dropWhile is_space s;
          neg = (t \<noteq> [] \<and> hd t = 0x2D);
          u = (if t \<noteq> [] \<and> (hd t = 0x2D \<or> hd t = 0x2B) then tl t else t)
      in if take 8 u = asc ''Infinity'' then (if neg then NInf else PInf)
         else
           let ip = takeWhile is_digit u;
               r1 = dropWhile is_digit u;
               dotted = (r1 \<noteq> [] \<and> hd r1 = 0x2E);
               fp = (if dotted then takeWhile is_digit (tl r1) else []);
               r2 = (if dotted then dropWhile is_digit (tl r1) else r1)
           in if ip = [] \<and> fp = [] then NaN
              else
                let v = of_int (digits_val (ip @ fp)) * pow10 (exponent_part r2 - int (length fp))
                in fl (if neg then - v else v))"

text \<open>\<open>parseInt\<close> with no radix: white space, a sign, then hexadecimal digits after
  \<open>0x\<close> or decimal digits.\<close>

definition hex_val :: "nat \<Rightarrow> nat option" where
  "hex_val c =
     (if is_digit c then Some (c - 0x30)
      else if 0x61 \<le> c \<and> c \<le> 0x66 then Some (c - 0x61 + 10)
      else if 0x41 \<le> c \<and> c \<le> 0x46 then Some (c - 0x41 + 10)
      else None)"

definition parseInt :: "jstring \<Rightarrow> jsnum" where
  "parseInt s =
     (let t = dropWhile is_space s;
          neg = (t \<noteq> [] \<and> hd t = 0x2D);
          u = (if t \<noteq> [] \<and> (hd t = 0x2D \<or> hd t = 0x2B) then tl t else t);
          hex = (take 2 u = asc ''0x'' \<or> take 2 u = asc ''0X'');
          ds = (if hex then takeWhile (\<lambda>c. hex_val c \<noteq> None) (drop 2 u)
                else takeWhile is_digit u);
          v = (if hex then foldl (\<lambda>a d. 16 * a + int (the (hex_val d))) 0 ds
               else digits_val ds)
      in if ds = [] then NaN else fl (if neg then - of_int v else of_int v))"

subsection \<open>Numbers to strings\<close>

text \<open>The decimal digits of a non-negative integer.\<close>

function dec_digits :: "int \<Rightarrow> jstring" where
  "dec_digits n =
     (if n < 10 then [nat (0x30 + n)] else dec_digits (n div 10) @ [nat (0x30 + n mod 10)])"
  by pat_completeness auto
termination
  by (relation "measure nat") auto

declare dec_digits.simps [simp del]

text \<open>\<open>\<lfloor>log\<^sub>1\<^sub>0 x\<rfloor>\<close> of a positive integer, and of a positive rational.\<close>

function ilog10i :: "int \<Rightarrow> int" where
  "ilog10i n = (if n < 10 then 0 else 1 + ilog10i (n div 10))"
  by pat_completeness auto
termination
  by (relation "measure nat") auto

declare ilog10i.simps [simp del]

definition ilog10 :: "rat \<Rightarrow> int" where
  "ilog10 x = (if 1 \<le> x then ilog10i \<lfloor>x\<rfloor> else - (ilog10i (\<lceil>1 / x\<rceil> - 1) + 1))"

text \<open>
  \<open>Number::toString\<close> of a positive finite Number \<open>x\<close> takes integers \<open>n\<close>,
  \<open>k\<close> and \<open>s\<close> with \<open>10\<^sup>k\<^sup>-\<^sup>1 \<le> s < 10\<^sup>k\<close>, such that \<open>s\<sqdot>10\<^sup>n\<^sup>-\<^sup>k\<close> rounds
  to \<open>x\<close> and \<open>k\<close> is as small as possible (the closest \<open>s\<close> when several do, the
  even one on a tie). \<open>shortest x e fuel k\<close> searches from \<open>k\<close> digits up, where
  \<open>e = \<lfloor>log\<^sub>1\<^sub>0 x\<rfloor>\<close>: with \<open>k\<close> digits only the two decimals next to \<open>x\<close> can
  round to it. Seventeen digits always suffice for a binary64 value, and the search is
  started with fuel for seventeen lengths; were it to run out, the nearest decimal of the
  next length is taken.
\<close>

fun shortest :: "rat \<Rightarrow> int \<Rightarrow> nat \<Rightarrow> nat \<Rightarrow> int \<times> nat \<times> int" where
  "shortest x e 0 k = (\<lfloor>x / pow10 (e - int k + 1) + 1 / 2\<rfloor>, k, e + 1)"
| "shortest x e (Suc fuel) k =
     (let u = pow10 (e - int k + 1);
          lo = \<lfloor>x / u\<rfloor>;
          hi = lo + 1;
          ok_lo = (fl (of_int lo * u) = Fin x);
          ok_hi = (fl (of_int hi * u) = Fin x);
          d_lo = x - of_int lo * u;
          d_hi = of_int hi * u - x;
          take_hi = (ok_hi \<and> (\<not> ok_lo \<or> d_hi < d_lo \<or> (d_hi = d_lo \<and> even hi)))
      in if take_hi then (if hi = 10 ^ k then (10 ^ (k - 1), k, e + 2) else (hi, k, e + 1))
         else if ok_lo then (lo, k, e + 1)
         else shortest x e fuel (Suc k))"

definition number_to_string_pos :: "rat \<Rightarrow> jstring" where
  "number_to_string_pos x =
     (let (s, k, n) = shortest x (ilog10 x) 17 1;
          ds = dec_digits s
      in if int k \<le> n \<and> n \<le> 21 then ds @ replicate (nat (n - int k)) 0x30
         else if 0 < n \<and> n \<le> 21 then take (nat n) ds @ [0x2E] @ drop (nat n) ds
         else if - 6 < n \<and> n \<le> 0 then asc ''0.'' @ replicate (nat (- n)) 0x30 @ ds
         else
           (if k = 1 then ds else take 1 ds @ [0x2E] @ drop 1 ds) @ asc ''e'' @
           (if 0 \<le> n - 1 then asc ''+'' else asc ''-'') @ dec_digits \<bar>n - 1\<bar>)"

text \<open>\<open>Number::toString\<close>, as a template literal and string concatenation apply it.\<close>

definition num_to_string :: "jsnum \<Rightarrow> jstring" where
  "num_to_string x =
     (case x of
        Fin r \<Rightarrow>
          if r = 0 then asc ''0''
          else if r < 0 then asc ''-'' @ number_to_string_pos (- r)
          else number_to_string_pos r
      | PInf \<Rightarrow> asc ''Infinity''
      | NInf \<Rightarrow> asc ''-Infinity''
      | NaN \<Rightarrow> asc ''NaN'')"

text \<open>
  \<open>Number.prototype.toFixed(f)\<close>: the integer \<open>n\<close> nearest to \<open>x\<sqdot>10\<^sup>f\<close>, the
  larger one on a tie, printed with \<open>f\<close> digits after the point. Numbers of
  magnitude \<open>10\<^sup>2\<^sup>1\<close> and more are printed as \<open>toString\<close> prints them.
\<close>

definition fixed_digits :: "nat \<Rightarrow> rat \<Rightarrow> jstring" where
  "fixed_digits f a =
     (let n = \<lfloor>a * 10 ^ f + 1 / 2\<rfloor>;
          m = dec_digits n;
          m' = (if f \<noteq> 0 \<and> length m \<le> f then replicate (f + 1 - length m) 0x30 @ m else m);
          k = length m'
      in if f = 0 then m' else take (k - f) m' @ [0x2E] @ drop (k - f) m')"

definition toFixed :: "nat \<Rightarrow> jsnum \<Rightarrow> jstring" where
  "toFixed f x =
     (case x of
        Fin r \<Rightarrow>
          if 10 ^ 21 \<le> \<bar>r\<bar> then num_to_string x
          else (if r < 0 then asc ''-'' else []) @ fixed_digits f \<bar>r\<bar>
      | _ \<Rightarrow> num_to_string x)"

section \<open>The host\<close>

text \<open>
  What the engine takes from the JavaScript host and its clock, as parameters:
  \<^item> \<open>sqrt_of\<close>, \<open>cbrt_of\<close>: \<open>Math.sqrt\<close> on a finite non-negative Number and
    \<open>Math.cbrt\<close> on a finite Number (both results are finite);
  \<^item> the \<open>Date\<close> methods the date handler calls, on a type \<open>'d\<close> of dates;
  \<^item> \<open>format_time\<close>: \<open>Intl.DateTimeFormat('zh-CN', {timeZone, hour: '2-digit',
    minute: '2-digit', hour12: false}).format\<close>, from the zone and the instant.
  The instant that \<open>new Date()\<close> reads during a call is an argument \<open>now\<close> of the
  handlers and of \<open>process\<close>.
\<close>

record 'd host =
  sqrt_of :: "rat \<Rightarrow> rat"
  cbrt_of :: "rat \<Rightarrow> rat"
  get_date :: "'d \<Rightarrow> jsnum"
  set_date :: "'d \<Rightarrow> jsnum \<Rightarrow> 'd"
  get_month :: "'d \<Rightarrow> jsnum"
  set_month :: "'d \<Rightarrow> jsnum \<Rightarrow> 'd"
  get_full_year :: "'d \<Rightarrow> jsnum"
  set_full_year :: "'d \<Rightarrow> jsnum \<Rightarrow> 'd"
  format_time :: "jstring \<Rightarrow> 'd \<Rightarrow> jstring"

definition math_sqrt :: "'d host \<Rightarrow> jsnum \<Rightarrow> jsnum" where
  "math_sqrt h x =
     (case x of
        Fin r \<Rightarrow> if r < 0 then NaN else Fin (sqrt_of h r)
      | PInf \<Rightarrow> PInf
      | NInf \<Rightarrow> NaN
      | NaN \<Rightarrow> NaN)"

definition math_cbrt :: "'d host \<Rightarrow> jsnum \<Rightarrow> jsnum" where
  "math_cbrt h x = (case x of Fin r \<Rightarrow> Fin (cbrt_of h r) | _ \<Rightarrow> x)"

section \<open>String operations of the handlers\<close>

text \<open>\<open>s.replace(new RegExp(w, 'g'), rep)\<close> for a literal word \<open>w\<close>: every
  occurrence, left to right, not overlapping.\<close>

function replace_all :: "jstring \<Rightarrow> jstring \<Rightarrow> jstring \<Rightarrow> jstring" where
  "replace_all w rep [] = []"
| "replace_all w rep (x # xs) =
     (if w \<noteq> [] \<and> take (length w) (x # xs) = w
      then rep @ replace_all w rep (drop (length w - 1) xs)
      else x # replace_all w rep xs)"
  by pat_completeness auto
termination
  by (relation "measure (\<lambda>(w, rep, s). length s)") auto

text \<open>\<open>s.includes(w)\<close>\<close>

fun includes_str :: "jstring \<Rightarrow> jstring \<Rightarrow> bool" where
  "includes_str [] w = (w = [])"
| "includes_str (x # xs) w = (take (length w) (x # xs) = w \<or> includes_str xs w)"

text \<open>\<open>s.replace(r, '$1')\<close> for a pattern without the \<open>g\<close> flag: the first match
  is replaced by its first capture group.\<close>

definition replace_by_group1 :: "re \<Rightarrow> jstring \<Rightarrow> jstring" where
  "replace_by_group1 r s =
     (case js_match r s of
        None \<Rightarrow> s
      | Some m \<Rightarrow> take (m_index m) s @ group_or_empty m 1 @ drop (m_end m) s)"

text \<open>\<open>ToString\<close> of a capture group: the text \<open>undefined\<close> for a group that did
  not take part in the match.\<close>

definition str_of :: "jstring option \<Rightarrow> jstring" where
  "str_of g = (case g of None \<Rightarrow> asc ''undefined'' | Some s \<Rightarrow> s)"

text \<open>
  A property read \<open>table[key]\<close> on an object literal: an own property, a property
  inherited from \<open>Object.prototype\<close> (each of them a truthy object), or
  \<open>undefined\<close>.
\<close>

datatype 'a lookup = Own 'a | Inherited jstring | Undefined

definition object_prototype_keys :: "jstring list" where
  "object_prototype_keys =
     map asc [''constructor'', ''hasOwnProperty'', ''isPrototypeOf'', ''propertyIsEnumerable'',
       ''toLocaleString'', ''toString'', ''valueOf'', ''__defineGetter__'', ''__defineSetter__'',
       ''__lookupGetter__'', ''__lookupSetter__'', ''__proto__'']"

definition obj_get :: "(jstring \<times> 'a) list \<Rightarrow> jstring \<Rightarrow> 'a lookup" where
  "obj_get table key =
     (case map_of table key of
        Some v \<Rightarrow> Own v
      | None \<Rightarrow> if key \<in> set object_prototype_keys then Inherited key else Undefined)"

section \<open>The rule table and the fixture data\<close>

subsection \<open>Character classes and patterns\<close>

definition digit :: cclass where
  "digit = Ranges [(0x30, 0x39)]"

definition space :: cclass where
  "space = Ranges space_ranges"

text \<open>\<open>.\<close>: any code unit but a line terminator.\<close>

definition any_char :: cclass where
  "any_char = NotRanges [(0x0A, 0x0A), (0x0D, 0x0D), (0x2028, 0x2029)]"

text \<open>\<open>[+\-*/]\<close>\<close>

definition operator_class :: cclass where
  "operator_class = Ranges [(0x2B, 0x2B), (0x2D, 0x2D), (0x2A, 0x2A), (0x2F, 0x2F)]"

text \<open>\<open>[U+4E00-U+9FA5]\<close> and \<open>[A-Za-z]\<close>\<close>

definition cjk :: cclass where
  "cjk = Ranges [(0x4E00, 0x9FA5)]"

definition latin :: cclass where
  "latin = Ranges [(0x41, 0x5A), (0x61, 0x7A)]"

fun seqs :: "re list \<Rightarrow> re" where
  "seqs [] = Lit []"
| "seqs [r] = r"
| "seqs (r # rs) = Seq r (seqs rs)"

fun alts :: "re list \<Rightarrow> re" where
  "alts [] = Cls (Ranges [])"
| "alts [r] = r"
| "alts (r # rs) = Alt r (alts rs)"

text \<open>\<open>w\<^sub>1|w\<^sub>2|\<dots>\<close> for literal words.\<close>

definition words :: "jstring list \<Rightarrow> re" where
  "words ws = alts (map Lit ws)"

text \<open>\<open>\d+(?:\.\d+)?\<close>\<close>

definition number :: re where
  "number = Seq (Plus digit) (Opt (Seq (Lit [0x2E]) (Plus digit)))"

text \<open>The patterns of lines 22 to 24 (math). The Chinese words are \<open>jia\<close> (plus),
  \<open>jian\<close> (minus), \<open>cheng\<close> (times), \<open>chu\<close> (divided by), \<open>de\<close> (of),
  \<open>pingfanggen\<close> (square root) and \<open>lifanggen\<close> (cube root).\<close>

definition math_symbolic :: re where
  "math_symbolic =
     seqs [Bos, Grp 1 number, Star space, Cls operator_class, Star space, Grp 2 number, Eos]"

definition math_chinese :: re where
  "math_chinese =
     seqs [Bos, Grp 1 number, Star space, Grp 2 (words [[0x52A0], [0x51CF], [0x4E58], [0x9664]]),
       Star space, Grp 3 number, Eos]"

definition math_root :: re where
  "math_root =
     seqs [Bos, Grp 1 number, Star space, Lit [0x7684], Star space,
       Grp 2 (words [[0x5E73, 0x65B9, 0x6839], [0x7ACB, 0x65B9, 0x6839]]), Eos]"

text \<open>Lines 32 and 33 (date): an amount, a unit (\<open>tian\<close>, \<open>ri\<close>: day; \<open>zhou\<close>: week;
  \<open>yue\<close>: month; \<open>nian\<close>: year) and a direction (\<open>hou\<close>: after; \<open>qian\<close>: before);
  or one of \<open>jintian\<close> (today), \<open>mingtian\<close> (tomorrow), \<open>houtian\<close> (the day after
  tomorrow), \<open>zuotian\<close> (yesterday), \<open>qiantian\<close> (the day before yesterday),
  \<open>xiazhou\<close> (next week), \<open>shangzhou\<close> (last week).\<close>

definition date_relative :: re where
  "date_relative =
     seqs [Bos, Grp 1 (Plus digit), Star space, Grp 2 (words [[0x5929], [0x65E5], [0x5468], [0x6708], [0x5E74]]),
       Star space, Grp 3 (words [[0x540E], [0x524D]]), Eos]"

definition date_deictic :: re where
  "date_deictic =
     seqs [Bos, Grp 1 (words [[0x4ECA, 0x5929], [0x660E, 0x5929], [0x540E, 0x5929], [0x6628, 0x5929], [0x524D, 0x5929], [0x4E0B, 0x5468], [0x4E0A, 0x5468]]), Eos]"

text \<open>Lines 41 and 42 (timezone); \<open>shijian\<close> is time, \<open>dian\<close> and \<open>shi\<close> are
  o'clock.\<close>

definition timezone_city :: re where
  "timezone_city =
     seqs [Bos, Grp 1 (Alt (Plus cjk) (Plus latin)), Star space, Lit [0x65F6, 0x95F4], Eos]"

definition timezone_clock :: re where
  "timezone_clock =
     seqs [Bos, Grp 1 (Rep 1 (Some 2) digit), Opt (Cls (Ranges [(0x3A, 0x3A), (0x2E, 0x2E)])),
       Opt (Grp 2 (Rep 2 (Some 2) digit)), Star space, Grp 3 (words [[0x70B9], [0x65F6]]), Star space,
       Grp 4 (Plus cjk), Star space, Opt (Grp 5 (Lit [0x65F6, 0x95F4])), Eos]"

text \<open>Lines 50 and 51 (unit): \<open>sheshidu\<close> (Celsius), \<open>huashidu\<close> (Fahrenheit) and the
  two degree signs; \<open>mi\<close> (metre), \<open>limi\<close> (centimetre), \<open>qianmi\<close> (kilometre),
  \<open>yingchi\<close> (foot), \<open>yingcun\<close> (inch) and \<open>m\<close>, \<open>cm\<close>, \<open>km\<close>, \<open>ft\<close>, \<open>in\<close>;
  \<open>dengyu\<close> (equals), \<open>zhuanhuanwei\<close> (converted to).\<close>

definition temperature_units :: "jstring list" where
  "temperature_units = [[0x6444, 0x6C0F, 0x5EA6], [0x534E, 0x6C0F, 0x5EA6], [0x2103], [0x2109]]"

definition length_units :: "jstring list" where
  "length_units = [[0x7C73], [0x5398, 0x7C73], [0x5343, 0x7C73], [0x82F1, 0x5C3A], [0x82F1, 0x5BF8]] @ map asc [''m'', ''cm'', ''km'', ''ft'', ''in'']"

definition unit_temperature :: re where
  "unit_temperature =
     seqs [Bos, Grp 1 number, Star space, Grp 2 (words temperature_units), Star space,
       Opt (Grp 3 (words [[0x7B49, 0x4E8E], [0x8F6C, 0x6362, 0x4E3A]])), Eos]"

definition unit_length :: re where
  "unit_length =
     seqs [Bos, Grp 1 number, Star space, Grp 2 (words length_units), Star space,
       Opt (Grp 3 (words [[0x7B49, 0x4E8E], [0x8F6C, 0x6362, 0x4E3A]])), Eos]"

text \<open>Lines 59 and 60 (currency): \<open>meiyuan\<close> (US dollar), \<open>renminbi\<close> (yuan),
  \<open>ouyuan\<close> (euro), \<open>yingbang\<close> (pound) and the four codes; \<open>dengyu\<close> (equals),
  \<open>huansuancheng\<close> (converted into).\<close>

definition currency_names :: "jstring list" where
  "currency_names = [[0x7F8E, 0x5143], [0x4EBA, 0x6C11, 0x5E01], [0x6B27, 0x5143], [0x82F1, 0x9551]]"

definition currency_codes :: "jstring list" where
  "currency_codes = map asc [''USD'', ''CNY'', ''EUR'', ''GBP'']"

definition currency_plain :: re where
  "currency_plain =
     seqs [Bos, Grp 1 number, Star space, Grp 2 (words (currency_names @ currency_codes)), Eos]"

definition currency_suffixed :: re where
  "currency_suffixed =
     seqs [Bos, Grp 1 number, Star space, Grp 2 (words currency_names), Star space,
       Opt (Grp 3 (words [[0x7B49, 0x4E8E], [0x6362, 0x7B97, 0x6210]])), Eos]"

text \<open>Lines 68 to 70 (formula): the names of the eleven formulas.\<close>

definition formula_physics :: re where
  "formula_physics =
     seqs [Bos,
       Grp 1 (alts [seqs [Lit [0x725B, 0x987F, 0x7B2C], Cls (Ranges [(0x4E00, 0x4E00), (0x4E8C, 0x4E8C), (0x4E09, 0x4E09)]), Lit [0x5B9A, 0x5F8B]],
                    Lit [0x6B27, 0x59C6, 0x5B9A, 0x5F8B], Lit [0x4E07, 0x6709, 0x5F15, 0x529B, 0x5B9A, 0x5F8B]]),
       Eos]"

definition formula_maths :: re where
  "formula_maths = seqs [Bos, Grp 1 (words [[0x52FE, 0x80A1, 0x5B9A, 0x7406], [0x4E8C, 0x6B21, 0x65B9, 0x7A0B], [0x5706, 0x7684, 0x9762, 0x79EF, 0x516C, 0x5F0F]]), Eos]"

definition formula_chemistry :: re where
  "formula_chemistry = seqs [Bos, Grp 1 (words [[0x6C34, 0x7684, 0x5206, 0x5B50, 0x5F0F], [0x4E8C, 0x6C27, 0x5316, 0x78B3], [0x6C27, 0x6C14, 0x7684, 0x5316, 0x5B66, 0x5F0F]]), Eos]"

text \<open>The patterns the handlers match again. Lines 194, 225, 275 and 343 repeat the
  patterns of lines 22 (with the operator captured), 32, 41 and 59; lines 300 and 315
  are the unit patterns cut after the unit, with no \<open>$\<close>; line 182 is
  \<open>.*?(\d+(?:\.\d+)?).*\<close>.\<close>

definition basic_expression :: re where
  "basic_expression =
     seqs [Bos, Grp 1 number, Star space, Grp 2 (Cls operator_class), Star space,
       Grp 3 number, Eos]"

definition temperature_prefix :: re where
  "temperature_prefix = seqs [Bos, Grp 1 number, Star space, Grp 2 (words temperature_units)]"

definition length_prefix :: re where
  "length_prefix = seqs [Bos, Grp 1 number, Star space, Grp 2 (words length_units)]"

definition first_number :: re where
  "first_number = seqs [LazyStar any_char, Grp 1 number, Star any_char]"

subsection \<open>Fixture data (\<open>initializeData\<close>)\<close>

definition timezoneMap :: "(jstring \<times> jstring) list" where
  "timezoneMap =
     [([0x7EBD, 0x7EA6], asc ''America/New_York''),
      ([0x6D1B, 0x6749, 0x77F6], asc ''America/Los_Angeles''),
      ([0x4F26, 0x6566], asc ''Europe/London''),
      ([0x5DF4, 0x9ECE], asc ''Europe/Paris''),
      ([0x4E1C, 0x4EAC], asc ''Asia/Tokyo''),
      ([0x9996, 0x5C14], asc ''Asia/Seoul''),
      ([0x65B0, 0x52A0, 0x5761], asc ''Asia/Singapore''),
      ([0x8FEA, 0x62DC], asc ''Asia/Dubai'')]"

text \<open>The formula database: the keys are the eleven names of the formula patterns. The
  values are kept as the code units of the source's strings.\<close>

definition formulaDatabase :: "(jstring \<times> jstring) list" where
  "formulaDatabase =
     [([0x725B, 0x987F, 0x7B2C, 0x4E8C, 0x5B9A, 0x5F8B], [0x0046, 0x0020, 0x003D, 0x0020, 0x006D, 0x0061]),
      ([0x725B, 0x987F, 0x7B2C, 0x4E00, 0x5B9A, 0x5F8B], [0x7269, 0x4F53, 0x4FDD, 0x6301, 0x9759, 0x6B62, 0x6216, 0x5300, 0x901F, 0x76F4, 0x7EBF, 0x8FD0, 0x52A8, 0x72B6, 0x6001]),
      ([0x725B, 0x987F, 0x7B2C, 0x4E09, 0x5B9A, 0x5F8B], [0x4F5C, 0x7528, 0x529B, 0x4E0E, 0x53CD, 0x4F5C, 0x7528, 0x529B, 0x5927, 0x5C0F, 0x76F8, 0x7B49, 0xFF0C, 0x65B9, 0x5411, 0x76F8, 0x53CD]),
      ([0x6B27, 0x59C6, 0x5B9A, 0x5F8B], [0x0056, 0x0020, 0x003D, 0x0020, 0x0049, 0x0052]),
      ([0x4E07, 0x6709, 0x5F15, 0x529B, 0x5B9A, 0x5F8B], [0x0046, 0x0020, 0x003D, 0x0020, 0x0047, 0x0028, 0x006D, 0x2081, 0x006D, 0x2082, 0x0029, 0x002F, 0x0072, 0x00B2]),
      ([0x52FE, 0x80A1, 0x5B9A, 0x7406], [0x0061, 0x00B2, 0x0020, 0x002B, 0x0020, 0x0062, 0x00B2, 0x0020, 0x003D, 0x0020, 0x0063, 0x00B2]),
      ([0x4E8C, 0x6B21, 0x65B9, 0x7A0B], [0x0078, 0x0020, 0x003D, 0x0020, 0x0028, 0x002D, 0x0062, 0x0020, 0x00B1, 0x0020, 0x221A, 0x0028, 0x0062, 0x00B2, 0x002D, 0x0034, 0x0061, 0x0063, 0x0029, 0x0029, 0x0020, 0x002F, 0x0020, 0x0032, 0x0061]),
      ([0x5706, 0x7684, 0x9762, 0x79EF, 0x516C, 0x5F0F], [0x0053, 0x0020, 0x003D, 0x0020, 0x03C0, 0x0072, 0x00B2]),
      ([0x6C34, 0x7684, 0x5206, 0x5B50, 0x5F0F], [0x0048, 0x2082, 0x004F]),
      ([0x4E8C, 0x6C27, 0x5316, 0x78B3], [0x0043, 0x004F, 0x2082]),
      ([0x6C27, 0x6C14, 0x7684, 0x5316, 0x5B66, 0x5F0F], [0x004F, 0x2082])]"

text \<open>The exchange rates, as the decimal literals of the source.\<close>

definition exchangeRates :: "(jstring \<times> (jstring \<times> rat) list) list" where
  "exchangeRates =
     [(asc ''USD'', [(asc ''CNY'', 71776 / 10000), (asc ''EUR'', 8234 / 10000), (asc ''GBP'', 7456 / 10000)]),
      (asc ''CNY'', [(asc ''USD'', 1393 / 10000), (asc ''EUR'', 1147 / 10000), (asc ''GBP'', 1039 / 10000)]),
      (asc ''EUR'', [(asc ''USD'', 12143 / 10000), (asc ''CNY'', 87234 / 10000), (asc ''GBP'', 9054 / 10000)]),
      (asc ''GBP'', [(asc ''USD'', 13416 / 10000), (asc ''CNY'', 96321 / 10000), (asc ''EUR'', 11045 / 10000)])]"

text \<open>\<open>this.exchangeRates.X.Y\<close>: the Number of the literal (\<open>undefined\<close>, which
  multiplies to \<open>NaN\<close>, for a pair the table does not hold).\<close>

definition rate :: "jstring \<Rightarrow> jstring \<Rightarrow> jsnum" where
  "rate x y =
     (case map_of exchangeRates x of
        None \<Rightarrow> NaN
      | Some row \<Rightarrow> (case map_of row y of None \<Rightarrow> NaN | Some r \<Rightarrow> fl r))"

section \<open>Results and handlers\<close>

datatype rkind = Calculation | Date | Timezone | Conversion | Currency | Formula | Error

text \<open>The display field of a Result is a string, except where the formula handler
  returns a property inherited from \<open>Object.prototype\<close>.\<close>

datatype jsval = Str jstring | ProtoValue jstring

record result =
  r_type :: rkind
  r_result :: jsval

datatype fault = RangeError jstring

subsection \<open>handleMathCalculation\<close>

text \<open>The replacement table of lines 167 to 174, in the order of its entries.\<close>

definition replacements :: "(jstring \<times> jstring) list" where
  "replacements =
     [([0x52A0], asc ''+''), ([0x51CF], asc ''-''), ([0x4E58], asc ''*''), ([0x9664], asc ''/''),
      ([0x7684, 0x5E73, 0x65B9, 0x6839], asc ''sqrt''), ([0x7684, 0x7ACB, 0x65B9, 0x6839], asc ''cbrt'')]"

definition translate :: "jstring \<Rightarrow> jstring" where
  "translate input = foldl (\<lambda>expression (chinese, symbol). replace_all chinese symbol expression)
     input replacements"

text \<open>The notice of line 205 (\<open>chushu buneng wei 0\<close>: the divisor cannot be 0).\<close>

definition division_notice :: jstring where
  "division_notice = [0x9664, 0x6570, 0x4E0D, 0x80FD, 0x4E3A, 0x0030]"

text \<open>
  The body of the \<open>try\<close> block. Nothing in it raises (string replacement, matching,
  \<open>parseFloat\<close>, the arithmetic of Numbers and \<open>toFixed(4)\<close> do not), so the
  \<open>catch\<close> branch, which would return the Result \<open>error\<close>, is never taken.
\<close>

definition handleMathCalculation :: "'d host \<Rightarrow> rmatch \<Rightarrow> jstring \<Rightarrow> result option" where
  "handleMathCalculation h match input =
     (let expression = translate input
      in if includes_str expression (asc ''sqrt'') then
           let num = parseFloat (replace_by_group1 first_number expression);
               res = math_sqrt h num
           in Some \<lparr>r_type = Calculation, r_result = Str (asc ''= '' @ num_to_string res)\<rparr>
         else if includes_str expression (asc ''cbrt'') then
           let num = parseFloat (replace_by_group1 first_number expression);
               res = math_cbrt h num
           in Some \<lparr>r_type = Calculation, r_result = Str (asc ''= '' @ toFixed 4 res)\<rparr>
         else
           (case js_match basic_expression expression of
              Some basicMatch \<Rightarrow>
                let operator = m_groups basicMatch 2;
                    a = parseFloat (str_of (m_groups basicMatch 1));
                    b = parseFloat (str_of (m_groups basicMatch 3));
                    res =
                      (if operator = Some (asc ''+'') then num_to_string (num_add a b)
                       else if operator = Some (asc ''-'') then num_to_string (num_sub a b)
                       else if operator = Some (asc ''*'') then num_to_string (num_mul a b)
                       else if operator = Some (asc ''/'') then
                         (if b \<noteq> Fin 0 then num_to_string (num_div a b) else division_notice)
                       else asc ''undefined'')
                in Some \<lparr>r_type = Calculation, r_result = Str (asc ''= '' @ res)\<rparr>
            | None \<Rightarrow> None))"

subsection \<open>handleDateCalculation\<close>

definition specialDates :: "(jstring \<times> int) list" where
  "specialDates =
     [([0x4ECA, 0x5929], 0), ([0x660E, 0x5929], 1), ([0x540E, 0x5929], 2), ([0x6628, 0x5929], - 1), ([0x524D, 0x5929], - 2)]"

text \<open>\<open>(M yue D ri)\<close> in full-width parentheses, from the date's month and day.\<close>

definition month_day :: "'d host \<Rightarrow> 'd \<Rightarrow> jstring" where
  "month_day h targetDate =
     (let month = num_add (get_month h targetDate) (Fin 1);
          day = get_date h targetDate
      in [0xFF08] @ num_to_string month @ [0x6708] @ num_to_string day @ [0x65E5, 0xFF09])"

definition handleDateCalculation :: "'d host \<Rightarrow> 'd \<Rightarrow> rmatch \<Rightarrow> jstring \<Rightarrow> result option" where
  "handleDateCalculation h now match input =
     (case js_match date_relative input of
        Some relativeMatch \<Rightarrow>
          let unit = m_groups relativeMatch 2;
              direction = m_groups relativeMatch 3;
              num = parseInt (str_of (m_groups relativeMatch 1));
              multiplier = (if direction = Some [0x540E] then Fin 1 else Fin (- 1));
              targetDate =
                (if unit = Some [0x5929] \<or> unit = Some [0x65E5] then
                   set_date h now (num_add (get_date h now) (num_mul num multiplier))
                 else if unit = Some [0x5468] then
                   set_date h now (num_add (get_date h now) (num_mul (num_mul num (Fin 7)) multiplier))
                 else if unit = Some [0x6708] then
                   set_month h now (num_add (get_month h now) (num_mul num multiplier))
                 else if unit = Some [0x5E74] then
                   set_full_year h now (num_add (get_full_year h now) (num_mul num multiplier))
                 else now)
          in Some \<lparr>r_type = Date, r_result = Str (month_day h targetDate)\<rparr>
      | None \<Rightarrow>
          (case map_of specialDates input of
             Some offset \<Rightarrow>
               let targetDate = set_date h now (num_add (get_date h now) (Fin (of_int offset)))
               in Some \<lparr>r_type = Date, r_result = Str (month_day h targetDate)\<rparr>
           | None \<Rightarrow> None))"

subsection \<open>handleTimezoneQuery\<close>

text \<open>
  \<open>this.timezoneMap[city]\<close> is a plain property read. For a city name that is a property
  of \<open>Object.prototype\<close> (such as \<open>constructor\<close>) it yields a function, which is
  truthy; \<open>Intl.DateTimeFormat\<close> then raises a \<open>RangeError\<close> for the invalid time
  zone. That fault leaves the handler.
\<close>

definition handleTimezoneQuery ::
  "'d host \<Rightarrow> 'd \<Rightarrow> rmatch \<Rightarrow> jstring \<Rightarrow> fault + result option" where
  "handleTimezoneQuery h now match input =
     (case js_match timezone_city input of
        Some cityMatch \<Rightarrow>
          (case obj_get timezoneMap (str_of (m_groups cityMatch 1)) of
             Own tz \<Rightarrow>
               Inr (Some \<lparr>r_type = Timezone,
                          r_result = Str ([0xFF08] @ format_time h tz now @ [0xFF09])\<rparr>)
           | Inherited key \<Rightarrow> Inl (RangeError key)
           | Undefined \<Rightarrow> Inr None)
      | None \<Rightarrow> Inr None)"

subsection \<open>handleUnitConversion\<close>

definition handleUnitConversion :: "'d host \<Rightarrow> rmatch \<Rightarrow> jstring \<Rightarrow> result option" where
  "handleUnitConversion h match input =
     (let tempMatch = js_match temperature_prefix input;
          temp_unit = (case tempMatch of None \<Rightarrow> None | Some m \<Rightarrow> m_groups m 2);
          temp_num = (case tempMatch of None \<Rightarrow> NaN | Some m \<Rightarrow> parseFloat (str_of (m_groups m 1)))
      in if tempMatch \<noteq> None \<and> (temp_unit = Some [0x6444, 0x6C0F, 0x5EA6] \<or> temp_unit = Some [0x2103]) then
           let fahrenheit = toFixed 1 (num_add (num_div (num_mul temp_num (Fin 9)) (Fin 5)) (Fin 32))
           in Some \<lparr>r_type = Conversion, r_result = Str (fahrenheit @ [0x534E, 0x6C0F, 0x5EA6])\<rparr>
         else if tempMatch \<noteq> None \<and> (temp_unit = Some [0x534E, 0x6C0F, 0x5EA6] \<or> temp_unit = Some [0x2109]) then
           let celsius = toFixed 1 (num_div (num_mul (num_sub temp_num (Fin 32)) (Fin 5)) (Fin 9))
           in Some \<lparr>r_type = Conversion, r_result = Str (celsius @ [0x6444, 0x6C0F, 0x5EA6])\<rparr>
         else
           (case js_match length_prefix input of
              Some lengthMatch \<Rightarrow>
                let unit = m_groups lengthMatch 2;
                    num = parseFloat (str_of (m_groups lengthMatch 1))
                in if unit = Some [0x7C73] \<or> unit = Some (asc ''m'') then
                     let feet = toFixed 2 (num_mul num (fl (328084 / 100000)))
                     in Some \<lparr>r_type = Conversion, r_result = Str (feet @ [0x82F1, 0x5C3A])\<rparr>
                   else None
            | None \<Rightarrow> None))"

subsection \<open>handleCurrencyConversion\<close>

definition currencyMap :: "(jstring \<times> jstring) list" where
  "currencyMap =
     [([0x7F8E, 0x5143], asc ''USD''), ([0x4EBA, 0x6C11, 0x5E01], asc ''CNY''), ([0x6B27, 0x5143], asc ''EUR''),
      ([0x82F1, 0x9551], asc ''GBP'')]"

text \<open>\<open>currencyMap[currency] || currency\<close>: \<open>None\<close> stands for a value that is not a
  string (an inherited property), which equals neither code.\<close>

definition fromCurrency :: "jstring \<Rightarrow> jstring option" where
  "fromCurrency currency =
     (case obj_get currencyMap currency of
        Own code \<Rightarrow> Some (if code = [] then currency else code)
      | Inherited key \<Rightarrow> None
      | Undefined \<Rightarrow> Some currency)"

definition handleCurrencyConversion :: "'d host \<Rightarrow> rmatch \<Rightarrow> jstring \<Rightarrow> result option" where
  "handleCurrencyConversion h match input =
     (case js_match currency_plain input of
        Some currencyMatch \<Rightarrow>
          let currency = str_of (m_groups currencyMatch 2);
              num = parseFloat (str_of (m_groups currencyMatch 1))
          in if fromCurrency currency = Some (asc ''USD'') then
               let cnyAmount = toFixed 4 (num_mul num (rate (asc ''USD'') (asc ''CNY'')))
               in Some \<lparr>r_type = Currency,
                        r_result = Str ([0xFF08] @ cnyAmount @ [0x0020, 0x4EBA, 0x6C11, 0x5E01, 0xFF09])\<rparr>
             else if fromCurrency currency = Some (asc ''CNY'') then
               let usdAmount = toFixed 4 (num_mul num (rate (asc ''CNY'') (asc ''USD'')))
               in Some \<lparr>r_type = Currency,
                        r_result = Str ([0xFF08] @ usdAmount @ [0x0020, 0x7F8E, 0x5143, 0xFF09])\<rparr>
             else None
      | None \<Rightarrow> None)"

subsection \<open>handleFormulaQuery\<close>

definition handleFormulaQuery :: "'d host \<Rightarrow> rmatch \<Rightarrow> jstring \<Rightarrow> result option" where
  "handleFormulaQuery h match input =
     (case obj_get formulaDatabase input of
        Own formula \<Rightarrow>
          if formula = [] then None else Some \<lparr>r_type = Formula, r_result = Str formula\<rparr>
      | Inherited key \<Rightarrow> Some \<lparr>r_type = Formula, r_result = ProtoValue key\<rparr>
      | Undefined \<Rightarrow> None)"

subsection \<open>formatOutput\<close>

definition formatOutput :: "result option \<Rightarrow> jsval" where
  "formatOutput res = (case res of None \<Rightarrow> Str [] | Some r \<Rightarrow> r_result r)"

section \<open>The dispatch engine\<close>

text \<open>A rule of the table. A handler may raise: its value is a fault or a Result or
  \<open>null\<close>.\<close>

record 'd rule =
  category :: jstring
  priority :: nat
  patterns :: "re list"
  handler :: "'d \<Rightarrow> rmatch \<Rightarrow> jstring \<Rightarrow> fault + result option"

text \<open>\<open>initializeRules\<close>: the six rules, in the order of the source.\<close>

definition math_rule :: "'d host \<Rightarrow> 'd rule" where
  "math_rule h =
     \<lparr>category = asc ''math'', priority = 1,
      patterns = [math_symbolic, math_chinese, math_root],
      handler = (\<lambda>now m input. Inr (handleMathCalculation h m input))\<rparr>"

definition date_rule :: "'d host \<Rightarrow> 'd rule" where
  "date_rule h =
     \<lparr>category = asc ''date'', priority = 2,
      patterns = [date_relative, date_deictic],
      handler = (\<lambda>now m input. Inr (handleDateCalculation h now m input))\<rparr>"

definition timezone_rule :: "'d host \<Rightarrow> 'd rule" where
  "timezone_rule h =
     \<lparr>category = asc ''timezone'', priority = 3,
      patterns = [timezone_city, timezone_clock],
      handler = (\<lambda>now m input. handleTimezoneQuery h now m input)\<rparr>"

definition unit_rule :: "'d host \<Rightarrow> 'd rule" where
  "unit_rule h =
     \<lparr>category = asc ''unit'', priority = 4,
      patterns = [unit_temperature, unit_length],
      handler = (\<lambda>now m input. Inr (handleUnitConversion h m input))\<rparr>"

definition currency_rule :: "'d host \<Rightarrow> 'd rule" where
  "currency_rule h =
     \<lparr>category = asc ''currency'', priority = 5,
      patterns = [currency_plain, currency_suffixed],
      handler = (\<lambda>now m input. Inr (handleCurrencyConversion h m input))\<rparr>"

definition formula_rule :: "'d host \<Rightarrow> 'd rule" where
  "formula_rule h =
     \<lparr>category = asc ''formula'', priority = 6,
      patterns = [formula_physics, formula_maths, formula_chemistry],
      handler = (\<lambda>now m input. Inr (handleFormulaQuery h m input))\<rparr>"

definition initializeRules :: "'d host \<Rightarrow> 'd rule list" where
  "initializeRules h =
     [math_rule h, date_rule h, timezone_rule h, unit_rule h, currency_rule h, formula_rule h]"

text \<open>The state of an engine: the cache, and the lines written by \<open>console.error\<close>
  (the category of the rule and the fault).\<close>

record engine =
  cache :: "jstring \<Rightarrow> result option"
  err_log :: "(jstring \<times> fault) list"

definition new_engine :: engine where
  "new_engine = \<lparr>cache = Map.empty, err_log = []\<rparr>"

text \<open>
  The inner loop of \<open>process\<close> over the patterns of one rule. \<open>Some r\<close> is the
  \<open>return result\<close> of line 138; \<open>None\<close> means that the loop ran to its end. A fault
  of the handler is caught (line 140), logged, and the loop goes on.
\<close>

fun try_patterns ::
  "'d rule \<Rightarrow> re list \<Rightarrow> 'd \<Rightarrow> jstring \<Rightarrow> engine \<Rightarrow> result option \<times> engine" where
  "try_patterns rl [] now cleanInput st = (None, st)"
| "try_patterns rl (pattern # ps) now cleanInput st =
     (case js_match pattern cleanInput of
        None \<Rightarrow> try_patterns rl ps now cleanInput st
      | Some m \<Rightarrow>
          (case handler rl now m cleanInput of
             Inr (Some res) \<Rightarrow> (Some res, st\<lparr>cache := (cache st)(cleanInput \<mapsto> res)\<rparr>)
           | Inr None \<Rightarrow> try_patterns rl ps now cleanInput st
           | Inl e \<Rightarrow>
               try_patterns rl ps now cleanInput (st\<lparr>err_log := err_log st @ [(category rl, e)]\<rparr>)))"

text \<open>The outer loop over the rules; \<open>return null\<close> when it runs to its end.\<close>

fun try_rules ::
  "'d rule list \<Rightarrow> 'd \<Rightarrow> jstring \<Rightarrow> engine \<Rightarrow> result option \<times> engine" where
  "try_rules [] now cleanInput st = (None, st)"
| "try_rules (rl # rls) now cleanInput st =
     (case try_patterns rl (patterns rl) now cleanInput st of
        (Some res, st') \<Rightarrow> (Some res, st')
      | (None, st') \<Rightarrow> try_rules rls now cleanInput st')"

text \<open>
  \<open>process\<close>. The value is what the call's promise settles to: \<open>Inl\<close> a fault
  (a rejection), \<open>Inr\<close> the Result or \<open>null\<close>, with the state of the engine after the
  call.
\<close>

definition process ::
  "'d rule list \<Rightarrow> 'd \<Rightarrow> engine \<Rightarrow> jstring \<Rightarrow> fault + (result option \<times> engine)" where
  "process rules now st input =
     (let cleanInput = preprocessInput input
      in case cache st cleanInput of
           Some cached \<Rightarrow> Inr (Some cached, st)
         | None \<Rightarrow> Inr (try_rules rules now cleanInput st))"

text \<open>The examples the interactive shell prints (\<open>showExamples\<close>), per category.\<close>

definition showExamples_items :: "(jstring \<times> jstring list) list" where
  "showExamples_items =
     [([0x6570, 0x5B66, 0x8BA1, 0x7B97], [[0x0031, 0x002B, 0x0031], [0x0032, 0x0035, 0x002A, 0x0034], [0x0031, 0x0030, 0x0030, 0x7684, 0x5E73, 0x65B9, 0x6839]]),
      ([0x65E5, 0x671F, 0x65F6, 0x95F4], [[0x0033, 0x5929, 0x540E], [0x660E, 0x5929], [0x4E0B, 0x5468]]),
      ([0x65F6, 0x533A, 0x67E5, 0x8BE2], [[0x7EBD, 0x7EA6, 0x65F6, 0x95F4], [0x4E1C, 0x4EAC, 0x65F6, 0x95F4], [0x4F26, 0x6566, 0x65F6, 0x95F4]]),
      ([0x5355, 0x4F4D, 0x8F6C, 0x6362], [[0x0033, 0x0037, 0x6444, 0x6C0F, 0x5EA6, 0x7B49, 0x4E8E], [0x0031, 0x0030, 0x0030, 0x7C73], [0x0035, 0x0030, 0x82F1, 0x5C3A]]),
      ([0x6C47, 0x7387, 0x6362, 0x7B97], [[0x0031, 0x7F8E, 0x5143], [0x0031, 0x0030, 0x0030, 0x4EBA, 0x6C11, 0x5E01], [0x0035, 0x0030, 0x6B27, 0x5143]]),
      ([0x516C, 0x5F0F, 0x67E5, 0x8BE2], [[0x725B, 0x987F, 0x7B2C, 0x4E8C, 0x5B9A, 0x5F8B], [0x52FE, 0x80A1, 0x5B9A, 0x7406], [0x6B27, 0x59C6, 0x5B9A, 0x5F8B]])]"

section \<open>Vocabulary of the properties\<close>

text \<open>
  A pattern of a rule resolves an input when it matches and the handler returns a Result;
  it does not when there is no match, when the handler returns \<open>null\<close>, and when the
  handler raises.
\<close>

definition resolves :: "'d rule \<Rightarrow> 'd \<Rightarrow> jstring \<Rightarrow> re \<Rightarrow> result option" where
  "resolves rl now cleanInput p =
     (case js_match p cleanInput of
        None \<Rightarrow> None
      | Some m \<Rightarrow> (case handler rl now m cleanInput of Inr res \<Rightarrow> res | Inl e \<Rightarrow> None))"

text \<open>What \<open>console.error\<close> writes for a pattern of a rule: a line when the pattern
  matches and the handler raises.\<close>

definition faults_of :: "'d rule \<Rightarrow> 'd \<Rightarrow> jstring \<Rightarrow> re \<Rightarrow> (jstring \<times> fault) list" where
  "faults_of rl now cleanInput p =
     (case js_match p cleanInput of
        None \<Rightarrow> []
      | Some m \<Rightarrow> (case handler rl now m cleanInput of Inr res \<Rightarrow> [] | Inl e \<Rightarrow> [(category rl, e)]))"

definition rule_faults :: "'d rule \<Rightarrow> 'd \<Rightarrow> jstring \<Rightarrow> re list \<Rightarrow> (jstring \<times> fault) list" where
  "rule_faults rl now cleanInput ps = concat (map (faults_of rl now cleanInput) ps)"

text \<open>The outcome of the two loops, without the state.\<close>

definition dispatch :: "'d rule list \<Rightarrow> 'd \<Rightarrow> jstring \<Rightarrow> result option" where
  "dispatch rules now cleanInput = fst (try_rules rules now cleanInput new_engine)"

text \<open>The states an engine can be in: a new engine, and what calls of \<open>process\<close> at
  any instants with any inputs make of it.\<close>

inductive reachable :: "'d rule list \<Rightarrow> engine \<Rightarrow> bool" for rules :: "'d rule list" where
  start: "reachable rules new_engine"
| step: "reachable rules st \<Longrightarrow> process rules now st input = Inr (r, st') \<Longrightarrow> reachable rules st'"

text \<open>The rule with a handler that returns \<open>null\<close> wherever the handler of \<open>rl\<close>
  raises.\<close>

definition quiet :: "'d rule \<Rightarrow> 'd rule" where
  "quiet rl =
     rl\<lparr>handler := (\<lambda>now m input.
        case handler rl now m input of Inl e \<Rightarrow> Inr None | Inr res \<Rightarrow> Inr res)\<rparr>"

section \<open>Families of inputs\<close>

text \<open>
  The properties below are about all inputs of a form, such as a number, white space, an
  operator, white space and a number. The numbers are the literals \<open>\d+(?:\.\d+)?\<close> of
  the patterns, the white space is what \<open>\s*\<close> matches.
\<close>

definition numlit :: "jstring \<Rightarrow> bool" where
  "numlit n \<longleftrightarrow>
     (let ds = takeWhile is_digit n; r = dropWhile is_digit n
      in ds \<noteq> [] \<and> (r = [] \<or> (hd r = 0x2E \<and> tl r \<noteq> [] \<and> list_all is_digit (tl r))))"

definition blank :: "jstring \<Rightarrow> bool" where
  "blank w \<longleftrightarrow> list_all is_space w"

text \<open>The value of a literal: its digits without the point, scaled by the number of
  digits after the point.\<close>

definition lit_value :: "jstring \<Rightarrow> rat" where
  "lit_value n =
     (let ip = takeWhile is_digit n; fp = drop (Suc (length ip)) n
      in of_int (digits_val (ip @ fp)) * pow10 (- int (length fp)))"

text \<open>A string of digits, points, white space and the code units of \<open>E\<close>.\<close>

definition made_of :: "nat list \<Rightarrow> jstring \<Rightarrow> bool" where
  "made_of E s \<longleftrightarrow> list_all (\<lambda>x. is_digit x \<or> x = 0x2E \<or> is_space x \<or> x \<in> set E) s"

text \<open>What can follow a literal without being read as a part of it, and what can follow
  white space.\<close>

definition stops :: "jstring \<Rightarrow> bool" where
  "stops rest \<longleftrightarrow> (case rest of [] \<Rightarrow> True | x # _ \<Rightarrow> \<not> is_digit x \<and> x \<noteq> 0x2E)"

definition no_space_ahead :: "jstring \<Rightarrow> bool" where
  "no_space_ahead rest \<longleftrightarrow> (case rest of [] \<Rightarrow> True | x # _ \<Rightarrow> \<not> is_space x)"

text \<open>The ways of matching that the matcher tries after the first one.\<close>

definition backtrack :: "re \<Rightarrow> mstate \<Rightarrow> mstate list" where
  "backtrack r st = tl (rm r st)"

subsection \<open>What a pattern can match\<close>

text \<open>The strings a pattern can consume, whatever comes before and after them.\<close>

primrec lang :: "re \<Rightarrow> jstring set" where
  "lang (Cls k) = {[x] | x. in_class k x}"
| "lang (Lit w) = {w}"
| "lang (Seq a b) = {u @ v | u v. u \<in> lang a \<and> v \<in> lang b}"
| "lang (Alt a b) = lang a \<union> lang b"
| "lang (Opt a) = insert [] (lang a)"
| "lang (Rep lo hi k) =
     {u. list_all (in_class k) u \<and> lo \<le> length u \<and> (case hi of None \<Rightarrow> True | Some h \<Rightarrow> length u \<le> h)}"
| "lang (LazyStar k) = {u. list_all (in_class k) u}"
| "lang (Grp n a) = lang a"
| "lang Bos = {[]}"
| "lang Eos = {[]}"


text \<open>A sufficient test that every string the pattern consumes holds a code unit of
  \<open>S\<close>.\<close>

primrec needs :: "nat set \<Rightarrow> re \<Rightarrow> bool" where
  "needs S (Cls k) = (\<forall>x. in_class k x \<longrightarrow> x \<in> S)"
| "needs S (Lit w) = (\<exists>x \<in> set w. x \<in> S)"
| "needs S (Seq a b) = (needs S a \<or> needs S b)"
| "needs S (Alt a b) = (needs S a \<and> needs S b)"
| "needs S (Opt a) = False"
| "needs S (Rep lo hi k) = (0 < lo \<and> (\<forall>x. in_class k x \<longrightarrow> x \<in> S))"
| "needs S (LazyStar k) = False"
| "needs S (Grp n a) = needs S a"
| "needs S Bos = False"
| "needs S Eos = False"



subsection \<open>What the properties say a handler computes\<close>

text \<open>The operation on Numbers that an operator of the math patterns stands for, in
  either spelling.\<close>

definition binop :: "nat \<Rightarrow> jsnum \<Rightarrow> jsnum \<Rightarrow> jsnum" where
  "binop x =
     (if x = 0x2B \<or> x = 0x52A0 then num_add
      else if x = 0x2D \<or> x = 0x51CF then num_sub
      else if x = 0x2A \<or> x = 0x4E58 then num_mul
      else num_div)"


section \<open>Evaluation\<close>

text \<open>Rewrite rules that evaluate the definitions on literals: the recursive functions on
  integers unfold under their guards, and the floor and ceiling of a quotient of numerals
  are computed by integer division.\<close>

lemmas pattern_defs = math_symbolic_def math_chinese_def math_root_def date_relative_def
  date_deictic_def timezone_city_def timezone_clock_def unit_temperature_def unit_length_def
  currency_plain_def currency_suffixed_def formula_physics_def formula_maths_def
  formula_chemistry_def basic_expression_def temperature_prefix_def length_prefix_def
  first_number_def number_def words_def temperature_units_def length_units_def
  currency_names_def currency_codes_def

lemmas space_defs = is_space_def space_ranges_def in_ranges_def

lemmas class_defs = digit_def space_def any_char_def operator_class_def cjk_def latin_def
  space_ranges_def in_ranges_def

lemmas eval_defs = pattern_defs class_defs js_match_def run_len_def asc_def Let_def rm.simps(6)

lemma floor_rat_numeral: "\<lfloor>numeral a / numeral b :: rat\<rfloor> = numeral a div numeral b"
  by (metis floor_divide_of_int_eq of_int_numeral)
lemma floor_rat_one: "\<lfloor>1 / numeral b :: rat\<rfloor> = 1 div numeral b"
  by (metis floor_divide_of_int_eq of_int_1 of_int_numeral)
lemma ceiling_rat_numeral: "\<lceil>numeral a / numeral b :: rat\<rceil> = - (- numeral a div numeral b)"
  using ceiling_divide_eq_div[of "numeral a" "numeral b", where ?'a = rat] by simp
lemma ceiling_rat_one: "\<lceil>1 / numeral b :: rat\<rceil> = - (- 1 div numeral b)"
  using ceiling_divide_eq_div[of 1 "numeral b", where ?'a = rat] by simp
lemma ilog2i_le1: "n \<le> 1 \<Longrightarrow> ilog2i n = 0"
  by (simp add: ilog2i.simps)
lemma ilog2i_gt1: "1 < n \<Longrightarrow> ilog2i n = 1 + ilog2i (n div 2)"
  by (subst ilog2i.simps) simp
lemma ilog10i_lt10: "n < 10 \<Longrightarrow> ilog10i n = 0"
  by (simp add: ilog10i.simps)
lemma ilog10i_ge10: "10 \<le> n \<Longrightarrow> ilog10i n = 1 + ilog10i (n div 10)"
  by (subst ilog10i.simps) simp
lemma dec_digits_lt10: "n < 10 \<Longrightarrow> dec_digits n = [nat (0x30 + n)]"
  by (simp add: dec_digits.simps)
lemma dec_digits_ge10: "10 \<le> n \<Longrightarrow> dec_digits n = dec_digits (n div 10) @ [nat (0x30 + n mod 10)]"
  by (subst dec_digits.simps) simp
lemma shortest_numeral:
  "shortest x e (numeral v) k =
     (let u = pow10 (e - int k + 1);
          lo = \<lfloor>x / u\<rfloor>;
          hi = lo + 1;
          ok_lo = (fl (of_int lo * u) = Fin x);
          ok_hi = (fl (of_int hi * u) = Fin x);
          d_lo = x - of_int lo * u;
          d_hi = of_int hi * u - x;
          take_hi = (ok_hi \<and> (\<not> ok_lo \<or> d_hi < d_lo \<or> (d_hi = d_lo \<and> even hi)))
      in if take_hi then (if hi = 10 ^ k then (10 ^ (k - 1), k, e + 2) else (hi, k, e + 1))
         else if ok_lo then (lo, k, e + 1)
         else shortest x e (pred_numeral v) (Suc k))"
  by (simp add: numeral_eq_Suc)

lemmas num_eval = floor_rat_numeral floor_rat_one ceiling_rat_numeral ceiling_rat_one
  ilog2i_le1 ilog2i_gt1 ilog10i_lt10 ilog10i_ge10 dec_digits_lt10 dec_digits_ge10
  shortest_numeral fl_def ilog2_def ilog10_def round_half_even_def pow2_def pow10_def Let_def

lemmas rule_defs = initializeRules_def math_rule_def date_rule_def timezone_rule_def
  unit_rule_def currency_rule_def formula_rule_def

lemmas handler_defs = handleMathCalculation_def handleDateCalculation_def handleTimezoneQuery_def
  handleUnitConversion_def handleCurrencyConversion_def handleFormulaQuery_def
  translate_def replacements_def specialDates_def timezoneMap_def formulaDatabase_def
  currencyMap_def fromCurrency_def obj_get_def object_prototype_keys_def str_of_def
  replace_by_group1_def group_or_empty_def division_notice_def

section \<open>The two loops of the dispatch\<close>

lemma try_patterns_log_none:
  "\<forall>p \<in> set ps. resolves rl now c p = None \<Longrightarrow>
   err_log (snd (try_patterns rl ps now c st)) = err_log st @ rule_faults rl now c ps"
  by (induction ps arbitrary: st)
     (auto simp: rule_faults_def resolves_def faults_of_def split: option.splits sum.splits)

lemma try_patterns_fst_none:
  "\<forall>p \<in> set ps. resolves rl now c p = None \<Longrightarrow> fst (try_patterns rl ps now c st) = None"
  by (induction ps arbitrary: st) (auto simp: resolves_def split: option.splits sum.splits)

lemma try_patterns_fst_first:
  "\<forall>p' \<in> set ps1. resolves rl now c p' = None \<Longrightarrow> resolves rl now c p = Some res \<Longrightarrow>
   fst (try_patterns rl (ps1 @ p # ps2) now c st) = Some res"
  by (induction ps1 arbitrary: st) (auto simp: resolves_def split: option.splits sum.splits)

lemma try_patterns_log_first:
  "\<forall>p' \<in> set ps1. resolves rl now c p' = None \<Longrightarrow> resolves rl now c p = Some res \<Longrightarrow>
   err_log (snd (try_patterns rl (ps1 @ p # ps2) now c st)) = err_log st @ rule_faults rl now c ps1"
  by (induction ps1 arbitrary: st)
     (auto simp: rule_faults_def resolves_def faults_of_def split: option.splits sum.splits)

lemma try_rules_fst_none:
  "\<forall>rl \<in> set rls. \<forall>p \<in> set (patterns rl). resolves rl now c p = None \<Longrightarrow>
   fst (try_rules rls now c st) = None"
proof (induction rls arbitrary: st)
  case Nil
  then show ?case by simp
next
  case (Cons rl rls)
  then have "fst (try_patterns rl (patterns rl) now c st) = None"
    by (simp add: try_patterns_fst_none)
  with Cons show ?case by (auto split: prod.splits option.splits)
qed

lemma try_rules_fst_first:
  assumes "\<forall>r' \<in> set rs1. \<forall>p' \<in> set (patterns r'). resolves r' now c p' = None"
    and "patterns rl = ps1 @ p # ps2"
    and "\<forall>p' \<in> set ps1. resolves rl now c p' = None"
    and "resolves rl now c p = Some res"
  shows "fst (try_rules (rs1 @ rl # rs2) now c st) = Some res"
  using assms(1)
proof (induction rs1 arbitrary: st)
  case Nil
  have "fst (try_patterns rl (patterns rl) now c st) = Some res"
    using assms(2-4) by (simp add: try_patterns_fst_first)
  then show ?case by (auto split: prod.splits option.splits)
next
  case (Cons r' rs1)
  then have "fst (try_patterns r' (patterns r') now c st) = None"
    by (simp add: try_patterns_fst_none)
  with Cons show ?case by (auto split: prod.splits option.splits)
qed

lemma try_rules_log_first:
  assumes "\<forall>r' \<in> set rs1. \<forall>p' \<in> set (patterns r'). resolves r' now c p' = None"
    and "patterns rl = ps1 @ p # ps2"
    and "\<forall>p' \<in> set ps1. resolves rl now c p' = None"
    and "resolves rl now c p = Some res"
  shows "err_log (snd (try_rules (rs1 @ rl # rs2) now c st)) =
     err_log st @ concat (map (\<lambda>r'. rule_faults r' now c (patterns r')) rs1) @ rule_faults rl now c ps1"
  using assms(1)
proof (induction rs1 arbitrary: st)
  case Nil
  have "fst (try_patterns rl (patterns rl) now c st) = Some res"
    and "err_log (snd (try_patterns rl (patterns rl) now c st)) = err_log st @ rule_faults rl now c ps1"
    using assms(2-4) by (simp_all add: try_patterns_fst_first try_patterns_log_first)
  then show ?case by (auto split: prod.splits option.splits)
next
  case (Cons r' rs1)
  then have "fst (try_patterns r' (patterns r') now c st) = None"
    and "err_log (snd (try_patterns r' (patterns r') now c st)) = err_log st @ rule_faults r' now c (patterns r')"
    by (simp_all add: try_patterns_fst_none try_patterns_log_none)
  with Cons show ?case by (auto split: prod.splits option.splits)
qed

lemma try_patterns_fst: "fst (try_patterns rl ps now c st) = fst (try_patterns rl ps now c st0)"
  by (induction ps arbitrary: st st0) (auto split: option.splits sum.splits)

lemma try_patterns_cache:
  "cache (snd (try_patterns rl ps now c st)) =
     (case fst (try_patterns rl ps now c st) of None \<Rightarrow> cache st | Some res \<Rightarrow> (cache st)(c \<mapsto> res))"
  by (induction ps arbitrary: st) (auto split: option.splits sum.splits)

lemma try_rules_fst: "fst (try_rules rls now c st) = fst (try_rules rls now c st0)"
proof (induction rls arbitrary: st st0)
  case Nil
  then show ?case by simp
next
  case (Cons rl rls)
  show ?case
    using try_patterns_fst[of rl "patterns rl" now c st st0] Cons.IH
    by (auto split: prod.splits option.splits)
qed

lemma try_rules_cache:
  "cache (snd (try_rules rls now c st)) =
     (case fst (try_rules rls now c st) of None \<Rightarrow> cache st | Some res \<Rightarrow> (cache st)(c \<mapsto> res))"
proof (induction rls arbitrary: st)
  case Nil
  then show ?case by simp
next
  case (Cons rl rls)
  show ?case
    using try_patterns_cache[of rl "patterns rl" now c st] Cons.IH
    by (auto split: prod.splits option.splits)
qed

lemma try_rules_dispatch: "fst (try_rules rls now c st) = dispatch rls now c"
  unfolding dispatch_def by (rule try_rules_fst)

lemma reachable_cache:
  "reachable rules st \<Longrightarrow> cache st k = Some res \<Longrightarrow> \<exists>now. dispatch rules now k = Some res"
proof (induction arbitrary: k res rule: reachable.induct)
  case start
  then show ?case by (simp add: new_engine_def)
next
  case (step st now input r st')
  show ?case
  proof (cases "cache st (preprocessInput input)")
    case (Some cached)
    with step.hyps(2) have "st' = st" by (simp add: process_def)
    with step show ?thesis by simp
  next
    case None
    with step.hyps(2) have eq: "try_rules rules now (preprocessInput input) st = (r, st')"
      by (simp add: process_def)
    have c: "cache st' = (case r of None \<Rightarrow> cache st | Some res \<Rightarrow> (cache st)(preprocessInput input \<mapsto> res))"
      using try_rules_cache[of rules now "preprocessInput input" st] eq by simp
    have d: "dispatch rules now (preprocessInput input) = r"
      using try_rules_dispatch[of rules now "preprocessInput input" st] eq by simp
    show ?thesis
    proof (cases r)
      case None
      with c step show ?thesis by simp
    next
      case (Some res')
      show ?thesis
      proof (cases "k = preprocessInput input")
        case True
        with c Some step.prems have "res = res'" by simp
        with d Some True show ?thesis by blast
      next
        case False
        with c Some step.prems have "cache st k = Some res" by simp
        with step.IH show ?thesis by blast
      qed
    qed
  qed
qed

lemma process_time_independent:
  assumes "reachable rules st" and "\<forall>now'. dispatch rules now' (preprocessInput input) = d"
  shows "\<exists>st'. process rules now st input = Inr (d, st')"
proof (cases "cache st (preprocessInput input)")
  case None
  have "fst (try_rules rules now (preprocessInput input) st) = d"
    using try_rules_dispatch assms(2) by metis
  then show ?thesis using None by (simp add: process_def) (metis prod.collapse)
next
  case (Some cached)
  then obtain t where "dispatch rules t (preprocessInput input) = Some cached"
    using reachable_cache[OF assms(1)] by blast
  with assms(2) have "d = Some cached" by simp
  with Some show ?thesis by (simp add: process_def)
qed

subsection \<open>Handlers that raise\<close>

lemma try_patterns_quiet_fst:
  "fst (try_patterns (quiet rl) ps now c st) = fst (try_patterns rl ps now c st')"
  by (induction ps arbitrary: st st') (auto simp: quiet_def split: option.splits sum.splits)

lemma try_patterns_quiet_log:
  "err_log (snd (try_patterns (quiet rl) ps now c st)) = err_log st"
  by (induction ps arbitrary: st) (auto simp: quiet_def split: option.splits sum.splits)

lemma try_rules_quiet_fst:
  "fst (try_rules (map quiet rls) now c st) = fst (try_rules rls now c st')"
proof (induction rls arbitrary: st st')
  case Nil
  then show ?case by simp
next
  case (Cons rl rls)
  have p: "patterns (quiet rl) = patterns rl" by (simp add: quiet_def)
  show ?case
    using try_patterns_quiet_fst[of rl "patterns rl" now c st st'] Cons.IH
    by (auto simp: p split: prod.splits option.splits)
qed

lemma try_rules_quiet_log:
  "err_log (snd (try_rules (map quiet rls) now c st)) = err_log st"
proof (induction rls arbitrary: st)
  case Nil
  then show ?case by simp
next
  case (Cons rl rls)
  have p: "patterns (quiet rl) = patterns rl" by (simp add: quiet_def)
  show ?case
    using try_patterns_quiet_log[of rl "patterns rl" now c st] Cons.IH
    by (auto simp: p split: prod.splits option.splits)
qed

subsection \<open>Numbers of the examples\<close>

lemma parse_one: "parseFloat [0x31] = Fin 1"
  by (simp add: parseFloat_def asc_def space_defs is_digit_def digits_val_def exponent_part_def
      num_eval cong: let_weak_cong)

lemma rate_usd_cny: "rate [0x55, 0x53, 0x44] [0x43, 0x4E, 0x59] = Fin (4040629585676809 / 562949953421312)"
  by (simp add: rate_def exchangeRates_def asc_def num_eval cong: let_weak_cong)

lemma mul_one_rate:
  "num_mul (Fin 1) (Fin (4040629585676809 / 562949953421312)) = Fin (4040629585676809 / 562949953421312)"
  by (simp add: num_mul_def num_eval cong: let_weak_cong)

lemma fixed_rate:
  "toFixed 4 (Fin (4040629585676809 / 562949953421312)) = [0x37, 0x2E, 0x31, 0x37, 0x37, 0x36]"
  by (simp add: toFixed_def fixed_digits_def asc_def num_eval cong: let_weak_cong)

subsection \<open>Calls that resolve nothing\<close>

lemma process_unresolved:
  assumes "reachable rules st"
    and "\<forall>now' st'. try_rules rules now' (preprocessInput input) st' = (None, st')"
  shows "process rules now st input = Inr (None, st)"
proof -
  have "\<forall>now'. dispatch rules now' (preprocessInput input) = None"
    using assms(2) by (simp add: dispatch_def)
  then have "cache st (preprocessInput input) = None"
    using reachable_cache[OF assms(1)] by (metis option.exhaust option.distinct(1))
  then show ?thesis using assms(2) by (simp add: process_def)
qed

section \<open>Matching on families of inputs\<close>

text \<open>
  On a string with unknown parts the matcher is not evaluated but rewritten: a literal and
  a run of white space are consumed whole by the first way of matching, as long as what
  follows cannot be a part of them. The equation of the repetition is therefore taken
  out of the rewrite rules here; the evaluation on closed strings adds it again.
\<close>

declare rm.simps(6) [simp del]

lemma in_class_digit [simp]: "in_class digit = is_digit"
  by (rule ext) (simp add: digit_def is_digit_def in_ranges_def)

lemma in_class_space [simp]: "in_class space = is_space"
  by (rule ext) (simp add: space_def is_space_def)

lemma numlit_cases:
  assumes "numlit n"
  obtains (whole) "n \<noteq> []" "list_all is_digit n"
  | (fraction) ds fs where "n = ds @ 0x2E # fs" "ds \<noteq> []" "list_all is_digit ds"
      "fs \<noteq> []" "list_all is_digit fs"
proof (cases "dropWhile is_digit n = []")
  case True
  then have "takeWhile is_digit n = n"
    by (metis append_Nil2 takeWhile_dropWhile_id)
  with assms True have "n \<noteq> []" "list_all is_digit n"
    by (auto simp: numlit_def Let_def list_all_iff dest: set_takeWhileD)
  then show ?thesis by (rule whole)
next
  case False
  let ?ds = "takeWhile is_digit n" and ?r = "dropWhile is_digit n"
  from assms False have r: "hd ?r = 0x2E" "tl ?r \<noteq> []" "list_all is_digit (tl ?r)" and d: "?ds \<noteq> []"
    by (auto simp: numlit_def Let_def)
  have "n = ?ds @ ?r" by simp
  also have "?r = 0x2E # tl ?r" using False r(1) by (metis list.collapse)
  finally have "n = ?ds @ 0x2E # tl ?r" .
  moreover have "list_all is_digit ?ds"
    by (auto simp: list_all_iff dest: set_takeWhileD)
  ultimately show ?thesis using d r by (intro fraction[of "takeWhile is_digit n" "tl (dropWhile is_digit n)"]) auto
qed

lemma run_len_append:
  "list_all (in_class k) u \<Longrightarrow> (case rest of [] \<Rightarrow> True | x # _ \<Rightarrow> \<not> in_class k x) \<Longrightarrow>
   run_len k (u @ rest) = length u"
  by (induction u) (auto simp: run_len_def split: list.splits)

lemma rm_Rep_first:
  "lo \<le> run_len k s \<Longrightarrow>
   rm (Rep lo None k) (i, s, c) =
     (i + run_len k s, drop (run_len k s) s, c) # backtrack (Rep lo None k) (i, s, c)"
  by (subst rm.simps(6), subst backtrack_def, subst rm.simps(6)) (simp add: Let_def)

lemma numlit_digit_head: "numlit n \<Longrightarrow> n \<noteq> [] \<and> is_digit (hd n)"
  by (erule numlit_cases) (auto simp: neq_Nil_conv)

lemma numlit_chars: "numlit n \<Longrightarrow> x \<in> set n \<Longrightarrow> is_digit x \<or> x = 0x2E"
  by (erule numlit_cases) (auto simp: list_all_iff)

lemma blank_chars: "blank w \<Longrightarrow> x \<in> set w \<Longrightarrow> is_space x"
  by (simp add: blank_def list_all_iff)

lemma space_not_digit: "is_space x \<Longrightarrow> \<not> is_digit x \<and> x \<noteq> 0x2E"
  by (auto simp: space_defs is_digit_def)

lemma stops_blank: "blank w \<Longrightarrow> stops rest \<Longrightarrow> stops (w @ rest)"
  by (cases w) (auto simp: stops_def blank_def space_not_digit)

lemma no_space_ahead_numlit: "numlit n \<Longrightarrow> no_space_ahead (n @ rest)"
  using numlit_digit_head[of n] space_not_digit[of "hd n"]
  by (cases n) (auto simp: no_space_ahead_def)

lemma rm_Plus_digits:
  assumes "list_all is_digit ds" "ds \<noteq> []" "case rest of [] \<Rightarrow> True | x # _ \<Rightarrow> \<not> is_digit x"
  shows "rm (Plus digit) (i, ds @ rest, c) =
     (i + length ds, rest, c) # backtrack (Plus digit) (i, ds @ rest, c)"
proof -
  have "run_len digit (ds @ rest) = length ds"
    using assms by (intro run_len_append) (auto split: list.splits)
  moreover from assms(2) have "1 \<le> length ds" by (cases ds) auto
  ultimately show ?thesis
    using rm_Rep_first[of 1 digit "ds @ rest" i c] by simp
qed

lemma rm_number_first:
  assumes "numlit n" and "stops rest"
  shows "rm number (i, n @ rest, c) = (i + length n, rest, c) # backtrack number (i, n @ rest, c)"
proof -
  have "\<exists>t. rm number (i, n @ rest, c) = (i + length n, rest, c) # t"
    using assms(1)
  proof (cases rule: numlit_cases)
    case whole
    have a: "rm (Plus digit) (i, n @ rest, c) =
        (i + length n, rest, c) # backtrack (Plus digit) (i, n @ rest, c)"
      using whole assms(2) by (intro rm_Plus_digits) (auto simp: stops_def split: list.splits)
    have b: "rm (Seq (Lit [0x2E]) (Plus digit)) (i + length n, rest, c) = []"
      using assms(2) by (cases rest) (auto simp: stops_def)
    show ?thesis using a b by (simp add: number_def)
  next
    case (fraction ds fs)
    have a: "rm (Plus digit) (i, ds @ 0x2E # fs @ rest, c) =
        (i + length ds, 0x2E # fs @ rest, c) # backtrack (Plus digit) (i, ds @ 0x2E # fs @ rest, c)"
      using fraction by (intro rm_Plus_digits) (auto simp: is_digit_def)
    have b: "rm (Plus digit) (Suc (i + length ds), fs @ rest, c) =
        (Suc (i + length ds) + length fs, rest, c) # backtrack (Plus digit) (Suc (i + length ds), fs @ rest, c)"
      using fraction assms(2) by (intro rm_Plus_digits) (auto simp: stops_def split: list.splits)
    show ?thesis using fraction(1) a b by (simp add: number_def)
  qed
  then show ?thesis by (auto simp: backtrack_def)
qed

lemma rm_number_whole:
  "numlit n \<Longrightarrow> rm number (i, n, c) = (i + length n, [], c) # backtrack number (i, n, c)"
  using rm_number_first[of n "[]" i c] by (simp add: stops_def)

lemma rm_Star_blank:
  assumes "blank w" and "no_space_ahead rest"
  shows "rm (Star space) (i, w @ rest, c) = (i + length w, rest, c) # backtrack (Star space) (i, w @ rest, c)"
proof -
  have "run_len space (w @ rest) = length w"
    using assms by (intro run_len_append) (auto simp: blank_def no_space_ahead_def split: list.splits)
  then show ?thesis
    using rm_Rep_first[of 0 space "w @ rest" i c] by simp
qed

lemma rm_Star_blank_end:
  "blank w \<Longrightarrow> rm (Star space) (i, w, c) = (i + length w, [], c) # backtrack (Star space) (i, w, c)"
  using rm_Star_blank[of w "[]" i c] by (simp add: no_space_ahead_def)

lemmas symbolic_patterns = math_symbolic_def math_chinese_def math_root_def date_relative_def
  date_deictic_def timezone_city_def timezone_clock_def unit_temperature_def unit_length_def
  currency_plain_def currency_suffixed_def formula_physics_def formula_maths_def
  formula_chemistry_def basic_expression_def temperature_prefix_def length_prefix_def
  words_def temperature_units_def length_units_def currency_names_def currency_codes_def
  operator_class_def in_ranges_def asc_def

lemma stops_simps: "stops []" "stops (x # xs) \<longleftrightarrow> \<not> is_digit x \<and> x \<noteq> 0x2E"
  by (simp_all add: stops_def)

lemma no_space_ahead_simps: "no_space_ahead []" "no_space_ahead (x # xs) \<longleftrightarrow> \<not> is_space x"
  by (simp_all add: no_space_ahead_def)

lemma no_space_ahead_numlit_whole: "numlit n \<Longrightarrow> no_space_ahead n"
  using no_space_ahead_numlit[of n "[]"] by simp

lemmas symbolic_rules = rm_number_first rm_number_whole rm_Star_blank rm_Star_blank_end
  stops_blank stops_simps no_space_ahead_simps no_space_ahead_numlit no_space_ahead_numlit_whole
  js_match_def space_defs is_digit_def

subsection \<open>Strings that a pattern does not match\<close>

text \<open>Every way of matching consumes a string of the pattern's language, and an
  anchored pattern consumes the input to its end. So a pattern that needs a code unit does
  not match an input without it, and a pattern that ends in certain code units does not
  match an input that ends otherwise.\<close>

lemma take_run_len:
  "j \<le> run_len k s \<Longrightarrow> list_all (in_class k) (take j s) \<and> length (take j s) = j"
proof (induction s arbitrary: j)
  case Nil
  then show ?case by (simp add: run_len_def)
next
  case (Cons x s)
  then show ?case by (cases j) (auto simp: run_len_def split: if_splits)
qed

lemma rm_sound:
  "(i', s', c') \<in> set (rm r (i, s, c)) \<Longrightarrow> \<exists>u \<in> lang r. s = u @ s' \<and> i' = i + length u"
proof (induction r arbitrary: i s c i' s' c')
  case (Cls k)
  then show ?case by (auto split: list.splits if_splits)
next
  case (Lit w)
  then show ?case
    by (auto split: if_splits) (metis append_take_drop_id)
next
  case (Seq a b)
  from Seq.prems obtain i1 s1 c1 where
    1: "(i1, s1, c1) \<in> set (rm a (i, s, c))" and 2: "(i', s', c') \<in> set (rm b (i1, s1, c1))"
    by auto
  from Seq.IH(1)[OF 1] obtain u where u: "u \<in> lang a" "s = u @ s1" "i1 = i + length u" by blast
  from Seq.IH(2)[OF 2] obtain v where v: "v \<in> lang b" "s1 = v @ s'" "i' = i1 + length v" by blast
  from u v show ?case by (intro bexI[of _ "u @ v"]) auto
next
  case (Alt a b)
  then show ?case by auto blast+
next
  case (Opt a)
  then show ?case by auto
next
  case (Rep lo hi k)
  let ?n = "case hi of None \<Rightarrow> run_len k s | Some h \<Rightarrow> min h (run_len k s)"
  from Rep obtain j where j: "lo \<le> j" "j \<le> ?n" "i' = i + j" "s' = drop j s" "c' = c"
    by (auto simp: rm.simps(6) Let_def)
  then have "j \<le> run_len k s" by (auto split: option.splits)
  from take_run_len[OF this] j show ?case
    by (intro bexI[of _ "take j s"]) (auto split: option.splits)
next
  case (LazyStar k)
  then obtain j where j: "j \<le> run_len k s" "i' = i + j" "s' = drop j s"
    by auto
  from take_run_len[OF j(1)] j show ?case
    by (intro bexI[of _ "take j s"]) auto
next
  case (Grp n a)
  then show ?case by auto
next
  case Bos
  then show ?case by (auto split: if_splits)
next
  case Eos
  then show ?case by (auto split: if_splits)
qed


lemma lang_needs: "needs S r \<Longrightarrow> u \<in> lang r \<Longrightarrow> \<exists>x \<in> set u. x \<in> S"
proof (induction r arbitrary: u)
  case (Rep lo hi k)
  then show ?case by (cases u) (auto simp: list_all_iff)
qed (auto, blast+)



lemma exec_from_Some:
  "exec_from r i s = Some m \<Longrightarrow>
   \<exists>p t i' s' c'. s = p @ t \<and> (i', s', c') \<in> set (rm r (i + length p, t, Map.empty))"
proof (induction s arbitrary: i)
  case Nil
  then show ?case by (auto split: list.splits)
next
  case (Cons x s)
  show ?case
  proof (cases "rm r (i, x # s, Map.empty)")
    case Nil
    with Cons.prems have "exec_from r (Suc i) s = Some m" by simp
    from Cons.IH[OF this] obtain p t i' s' c' where
      "s = p @ t" "(i', s', c') \<in> set (rm r (Suc i + length p, t, Map.empty))" by blast
    then show ?thesis by - (rule exI[of _ "x # p"], auto)
  next
    case (Cons st sts)
    then show ?thesis
      by - (rule exI[of _ "[]"], rule exI[of _ "x # s"], cases st, auto)
  qed
qed

lemma no_match_needs:
  assumes "needs S r" and "\<forall>x \<in> set s. x \<notin> S"
  shows "js_match r s = None"
proof (rule ccontr)
  assume "js_match r s \<noteq> None"
  then obtain m where "exec_from r 0 s = Some m" by (auto simp: js_match_def)
  from exec_from_Some[OF this] obtain p t i' s' c' where
    s: "s = p @ t" and "(i', s', c') \<in> set (rm r (0 + length p, t, Map.empty))" by blast
  from rm_sound[OF this(2)] obtain u where "u \<in> lang r" "t = u @ s'" by blast
  with lang_needs[OF assms(1)] s assms(2) show False by auto
qed


lemma no_match_chars:
  assumes "needs (set S) r" and "list_all (\<lambda>e. e \<notin> set s) S"
  shows "js_match r s = None"
  using assms(1) by (rule no_match_needs) (use assms(2) in \<open>auto simp: list_all_iff\<close>)

lemma made_of_append [simp]: "made_of E (u @ v) \<longleftrightarrow> made_of E u \<and> made_of E v"
  by (simp add: made_of_def)

lemma made_of_Nil [simp]: "made_of E []"
  by (simp add: made_of_def)





subsection \<open>Literals and string operations\<close>

lemma takeWhile_all: "list_all P xs \<Longrightarrow> takeWhile P (xs @ ys) = xs @ takeWhile P ys"
  by (induction xs) auto

lemma dropWhile_all: "list_all P xs \<Longrightarrow> dropWhile P (xs @ ys) = dropWhile P ys"
  by (induction xs) auto

lemma digit_not_space: "is_digit x \<Longrightarrow> \<not> is_space x"
  by (auto simp: space_defs is_digit_def)

lemma parseFloat_numlit:
  assumes "numlit n"
  shows "parseFloat n = fl (lit_value n)"
  using assms
proof (cases rule: numlit_cases)
  case whole
  then obtain x xs where n: "n = x # xs" "is_digit x" by (cases n) auto
  have t: "takeWhile is_digit n = n" "dropWhile is_digit n = []"
    using whole takeWhile_all[of is_digit n "[]"] dropWhile_all[of is_digit n "[]"] by auto
  have "dropWhile is_space n = n" using n digit_not_space by simp
  moreover have "hd n \<noteq> 0x2D" "hd n \<noteq> 0x2B" "take 8 n \<noteq> asc ''Infinity''"
    using n by (auto simp: is_digit_def asc_def)
  ultimately show ?thesis
    using whole(1) by (simp add: parseFloat_def lit_value_def Let_def exponent_part_def t)
next
  case (fraction ds fs)
  then obtain x xs where d: "ds = x # xs" "is_digit x" by (cases ds) auto
  have nd: "\<not> is_digit 0x2E" by (simp add: is_digit_def)
  have t: "takeWhile is_digit n = ds" "dropWhile is_digit n = 0x2E # fs"
    using fraction nd takeWhile_all[of is_digit ds "0x2E # fs"] dropWhile_all[of is_digit ds "0x2E # fs"]
    by auto
  have f: "takeWhile is_digit fs = fs" "dropWhile is_digit fs = []"
    using fraction takeWhile_all[of is_digit fs "[]"] dropWhile_all[of is_digit fs "[]"] by auto
  have "dropWhile is_space n = n" using fraction(1) d digit_not_space by simp
  moreover have "hd n \<noteq> 0x2D" "hd n \<noteq> 0x2B" "take 8 n \<noteq> asc ''Infinity''"
    using fraction(1) d by (auto simp: is_digit_def asc_def)
  ultimately show ?thesis
    using fraction(2,4)
    by (simp add: parseFloat_def lit_value_def Let_def exponent_part_def t f)
       (simp add: fraction(1))
qed

lemmas family_eval = numlit_def blank_def lit_value_def is_digit_def digits_val_def

lemma replace_all_absent:
  "w \<noteq> [] \<Longrightarrow> hd w \<notin> set s \<Longrightarrow> replace_all w rep s = s"
proof (induction s)
  case Nil
  then show ?case by simp
next
  case (Cons x s)
  then have "take (length w) (x # s) \<noteq> w" by (cases w) auto
  with Cons show ?case by simp
qed

lemma replace_all_append:
  "w \<noteq> [] \<Longrightarrow> hd w \<notin> set u \<Longrightarrow> replace_all w rep (u @ v) = u @ replace_all w rep v"
proof (induction u)
  case Nil
  then show ?case by simp
next
  case (Cons x u)
  then have "take (length w) (x # u @ v) \<noteq> w" by (cases w) auto
  with Cons show ?case by simp
qed

lemma includes_absent: "w \<noteq> [] \<Longrightarrow> hd w \<notin> set s \<Longrightarrow> \<not> includes_str s w"
proof (induction s)
  case Nil
  then show ?case by simp
next
  case (Cons x s)
  then have "take (length w) (x # s) \<noteq> w" by (cases w) auto
  with Cons show ?case by simp
qed

lemma numlit_notin: "numlit n \<Longrightarrow> \<not> is_digit x \<Longrightarrow> x \<noteq> 0x2E \<Longrightarrow> x \<notin> set n"
  using numlit_chars by blast

lemma blank_notin: "blank w \<Longrightarrow> \<not> is_space x \<Longrightarrow> x \<notin> set w"
  using blank_chars by blast

lemmas family_chars = numlit_notin blank_notin is_digit_def space_defs

subsection \<open>Calls that resolve\<close>

lemma process_resolved:
  assumes "reachable rules st"
    and "\<forall>now' st'. fst (try_rules rules now' (preprocessInput input) st') = Some res \<and>
           err_log (snd (try_rules rules now' (preprocessInput input) st')) = err_log st'"
  shows "process rules now st input =
     Inr (Some res, st\<lparr>cache := (cache st)(preprocessInput input \<mapsto> res)\<rparr>)"
proof (cases "cache st (preprocessInput input)")
  case None
  let ?t = "try_rules rules now (preprocessInput input) st"
  have "cache (snd ?t) = (cache st)(preprocessInput input \<mapsto> res)"
    using try_rules_cache[of rules now "preprocessInput input" st] assms(2) by simp
  moreover have "err_log (snd ?t) = err_log st" using assms(2) by simp
  ultimately have "snd ?t = st\<lparr>cache := (cache st)(preprocessInput input \<mapsto> res)\<rparr>"
    by (intro engine.equality) simp_all
  moreover have "fst ?t = Some res" using assms(2) by simp
  ultimately have "?t = (Some res, st\<lparr>cache := (cache st)(preprocessInput input \<mapsto> res)\<rparr>)"
    by (metis prod.collapse)
  with None show ?thesis by (simp add: process_def Let_def)
next
  case (Some cached)
  then obtain t where "dispatch rules t (preprocessInput input) = Some cached"
    using reachable_cache[OF assms(1)] by blast
  with assms(2) have "cached = res" by (simp add: dispatch_def)
  with Some have "st\<lparr>cache := (cache st)(preprocessInput input \<mapsto> res)\<rparr> = st"
    by (intro engine.equality) (simp_all add: fun_upd_idem)
  with Some \<open>cached = res\<close> show ?thesis by (simp add: process_def Let_def)
qed

subsection \<open>Arithmetic expressions\<close>

lemma match_symbolic:
  assumes "numlit a" "numlit b" "blank w1" "blank w2" "x \<in> set [0x2B, 0x2D, 0x2A, 0x2F]"
  shows "js_match math_symbolic (a @ w1 @ x # w2 @ b) =
     Some \<lparr>m_index = 0, m_end = length a + length w1 + 1 + length w2 + length b,
       m_groups = [1 \<mapsto> a, 2 \<mapsto> b]\<rparr>"
  using assms by (auto simp: symbolic_patterns symbolic_rules)

lemma match_basic:
  assumes "numlit a" "numlit b" "blank w1" "blank w2" "x \<in> set [0x2B, 0x2D, 0x2A, 0x2F]"
  shows "js_match basic_expression (a @ w1 @ x # w2 @ b) =
     Some \<lparr>m_index = 0, m_end = length a + length w1 + 1 + length w2 + length b,
       m_groups = [1 \<mapsto> a, 2 \<mapsto> [x], 3 \<mapsto> b]\<rparr>"
  using assms by (auto simp: symbolic_patterns symbolic_rules)

lemma match_chinese:
  assumes "numlit a" "numlit b" "blank w1" "blank w2" "x \<in> set [0x52A0, 0x51CF, 0x4E58, 0x9664]"
  shows "js_match math_chinese (a @ w1 @ x # w2 @ b) =
     Some \<lparr>m_index = 0, m_end = length a + length w1 + 1 + length w2 + length b,
       m_groups = [1 \<mapsto> a, 2 \<mapsto> [x], 3 \<mapsto> b]\<rparr>"
  using assms by (auto simp: symbolic_patterns symbolic_rules)

lemma no_match_symbolic:
  assumes "numlit a" "numlit b" "blank w1" "blank w2" "x \<in> set [0x52A0, 0x51CF, 0x4E58, 0x9664]"
  shows "js_match math_symbolic (a @ w1 @ x # w2 @ b) = None"
proof (rule no_match_chars[where S = "[0x2B, 0x2D, 0x2A, 0x2F]"])
  show "needs (set [0x2B, 0x2D, 0x2A, 0x2F]) math_symbolic"
    by (simp add: symbolic_patterns)
  show "list_all (\<lambda>e. e \<notin> set (a @ w1 @ x # w2 @ b)) [0x2B, 0x2D, 0x2A, 0x2F]"
    using assms by (auto simp: family_chars)
qed

lemma no_roots:
  assumes "numlit a" "numlit b" "blank w1" "blank w2" "x \<in> set [0x2B, 0x2D, 0x2A, 0x2F]"
  shows "\<not> includes_str (a @ w1 @ x # w2 @ b) [0x73, 0x71, 0x72, 0x74]"
    and "\<not> includes_str (a @ w1 @ x # w2 @ b) [0x63, 0x62, 0x72, 0x74]"
  using assms by (auto simp: includes_absent family_chars)

lemma operator_distinct:
  assumes "(x::nat) \<in> set [0x2B, 0x2D, 0x2A, 0x2F]"
  shows "x \<noteq> 0x52A0" "x \<noteq> 0x51CF" "x \<noteq> 0x4E58" "x \<noteq> 0x9664" "x \<noteq> 0x7684"
    "0x52A0 \<noteq> x" "0x51CF \<noteq> x" "0x4E58 \<noteq> x" "0x9664 \<noteq> x" "0x7684 \<noteq> x"
  using assms by auto

lemma translate_symbolic:
  assumes "numlit a" "numlit b" "blank w1" "blank w2" "x \<in> set [0x2B, 0x2D, 0x2A, 0x2F]"
  shows "translate (a @ w1 @ x # w2 @ b) = a @ w1 @ x # w2 @ b"
  using assms(1-4) operator_distinct[OF assms(5)]
  by (simp add: translate_def replacements_def asc_def replace_all_absent family_chars)

lemma translate_chinese:
  assumes "numlit a" "numlit b" "blank w1" "blank w2"
  shows "translate (a @ w1 @ 0x52A0 # w2 @ b) = a @ w1 @ 0x2B # w2 @ b"
    and "translate (a @ w1 @ 0x51CF # w2 @ b) = a @ w1 @ 0x2D # w2 @ b"
    and "translate (a @ w1 @ 0x4E58 # w2 @ b) = a @ w1 @ 0x2A # w2 @ b"
    and "translate (a @ w1 @ 0x9664 # w2 @ b) = a @ w1 @ 0x2F # w2 @ b"
  using assms
  by (simp_all add: translate_def replacements_def asc_def replace_all_absent replace_all_append
      family_chars)

lemma handler_symbolic:
  assumes "numlit a" "numlit b" "blank w1" "blank w2" "x \<in> set [0x2B, 0x2D, 0x2A, 0x2F]"
  shows "handleMathCalculation h m (a @ w1 @ x # w2 @ b) =
     Some \<lparr>r_type = Calculation, r_result = Str (asc ''= '' @
       (if x = 0x2F \<and> parseFloat b = Fin 0 then division_notice
        else num_to_string (binop x (parseFloat a) (parseFloat b))))\<rparr>"
  using assms(5)
  by (auto simp: handleMathCalculation_def translate_symbolic[OF assms] no_roots[OF assms]
      match_basic[OF assms] str_of_def binop_def asc_def Let_def)

lemma handler_chinese:
  assumes "numlit a" "numlit b" "blank w1" "blank w2" "x \<in> set [0x52A0, 0x51CF, 0x4E58, 0x9664]"
  shows "handleMathCalculation h m (a @ w1 @ x # w2 @ b) =
     Some \<lparr>r_type = Calculation, r_result = Str (asc ''= '' @
       (if x = 0x9664 \<and> parseFloat b = Fin 0 then division_notice
        else num_to_string (binop x (parseFloat a) (parseFloat b))))\<rparr>"
proof -
  note s = assms(1-4)
  have "handleMathCalculation h m (a @ w1 @ 0x52A0 # w2 @ b) =
      Some \<lparr>r_type = Calculation, r_result = Str (asc ''= '' @ num_to_string (num_add (parseFloat a) (parseFloat b)))\<rparr>"
    using handler_symbolic[OF s, of "0x2B" h m]
    by (simp add: handleMathCalculation_def translate_chinese[OF s] translate_symbolic[OF s] binop_def)
  moreover have "handleMathCalculation h m (a @ w1 @ 0x51CF # w2 @ b) =
      Some \<lparr>r_type = Calculation, r_result = Str (asc ''= '' @ num_to_string (num_sub (parseFloat a) (parseFloat b)))\<rparr>"
    using handler_symbolic[OF s, of "0x2D" h m]
    by (simp add: handleMathCalculation_def translate_chinese[OF s] translate_symbolic[OF s] binop_def)
  moreover have "handleMathCalculation h m (a @ w1 @ 0x4E58 # w2 @ b) =
      Some \<lparr>r_type = Calculation, r_result = Str (asc ''= '' @ num_to_string (num_mul (parseFloat a) (parseFloat b)))\<rparr>"
    using handler_symbolic[OF s, of "0x2A" h m]
    by (simp add: handleMathCalculation_def translate_chinese[OF s] translate_symbolic[OF s] binop_def)
  moreover have "handleMathCalculation h m (a @ w1 @ 0x9664 # w2 @ b) =
      Some \<lparr>r_type = Calculation, r_result = Str (asc ''= '' @
        (if parseFloat b = Fin 0 then division_notice else num_to_string (num_div (parseFloat a) (parseFloat b))))\<rparr>"
    using handler_symbolic[OF s, of "0x2F" h m]
    by (simp add: handleMathCalculation_def translate_chinese[OF s] translate_symbolic[OF s] binop_def)
  ultimately show ?thesis
    using assms(5) by (auto simp: binop_def)
qed

lemma try_rules_arithmetic:
  assumes "numlit a" "numlit b" "blank w1" "blank w2"
    and "x \<in> set [0x2B, 0x2D, 0x2A, 0x2F, 0x52A0, 0x51CF, 0x4E58, 0x9664]"
  shows "fst (try_rules (initializeRules h) now (a @ w1 @ x # w2 @ b) st) =
     Some \<lparr>r_type = Calculation, r_result = Str (asc ''= '' @
       (if (x = 0x2F \<or> x = 0x9664) \<and> parseFloat b = Fin 0 then division_notice
        else num_to_string (binop x (parseFloat a) (parseFloat b))))\<rparr> \<and>
     err_log (snd (try_rules (initializeRules h) now (a @ w1 @ x # w2 @ b) st)) = err_log st"
proof (cases "x \<in> set [0x2B, 0x2D, 0x2A, 0x2F]")
  case True
  note s = assms(1-4) True
  have "x \<noteq> 0x9664" using True by auto
  then show ?thesis
    by (simp add: rule_defs match_symbolic[OF s] handler_symbolic[OF s])
next
  case False
  with assms(5) have c: "x \<in> set [0x52A0, 0x51CF, 0x4E58, 0x9664]" by auto
  note s = assms(1-4) c
  have "x \<noteq> 0x2F" using c by auto
  then show ?thesis
    by (simp add: rule_defs no_match_symbolic[OF s] match_chinese[OF s] handler_chinese[OF s])
qed

lemma tenths:
  "fl (lit_value [0x0030, 0x002E, 0x0031]) = Fin (3602879701896397 / 36028797018963968)"
  "fl (lit_value [0x0030, 0x002E, 0x0032]) = Fin (3602879701896397 / 18014398509481984)"
  by (simp_all add: family_eval num_eval cong: let_weak_cong)

lemma tenths_sum:
  "num_to_string (binop 0x2B (fl (lit_value [0x0030, 0x002E, 0x0031])) (fl (lit_value [0x0030, 0x002E, 0x0032]))) = [0x0030, 0x002E, 0x0033, 0x0030, 0x0030, 0x0030, 0x0030, 0x0030, 0x0030, 0x0030, 0x0030, 0x0030, 0x0030, 0x0030, 0x0030, 0x0030, 0x0030, 0x0030, 0x0034]"
  unfolding tenths binop_def
  by (simp add: num_to_string_def number_to_string_pos_def asc_def num_eval cong: let_weak_cong)

lemma tenths_exact:
  "lit_value [0x0030, 0x002E, 0x0033, 0x0030, 0x0030, 0x0030, 0x0030, 0x0030, 0x0030, 0x0030, 0x0030, 0x0030, 0x0030, 0x0030, 0x0030, 0x0030, 0x0030, 0x0030, 0x0034] \<noteq> lit_value [0x0030, 0x002E, 0x0031] + lit_value [0x0030, 0x002E, 0x0032]"
  by (simp add: family_eval pow10_def Let_def)

lemma seven_times_six:
  "num_to_string (binop 0x4E58 (fl (lit_value [0x0037])) (fl (lit_value [0x0036]))) = [0x0034, 0x0032]"
  by (simp add: binop_def family_eval num_mul_def num_to_string_def number_to_string_pos_def asc_def
      num_eval cong: let_weak_cong)

lemma zero_values: "lit_value [0x0030] = 0" "numlit [0x0030]" "numlit [0x0035]"
  by (simp_all add: family_eval)

subsection \<open>Amounts of a currency\<close>













section \<open>Claims\<close>

subsection \<open>C1: first match wins\<close>

text \<open>
  C1. On a cache miss, \<open>process\<close> tries the rules in the order of the list and, within
  a rule, the patterns in their order. If pattern \<open>p\<close> of rule \<open>rl\<close> is the first one
  that matches and whose handler returns a Result \<open>res\<close> (every pattern of an earlier
  rule and every earlier pattern of \<open>rl\<close> fails to match, or its handler returns
  \<open>null\<close> or raises), then \<open>process\<close> returns \<open>res\<close> and stores it in the cache
  under the normalized input. The later patterns \<open>ps2\<close> and the later rules \<open>rs2\<close>
  are arbitrary: they are not tried, whatever they would match, and the error log grows
  by the faults of the earlier candidates only.
\<close>

theorem first_match_wins:
  assumes "cache st (preprocessInput input) = None"
    and "rules = rs1 @ rl # rs2"
    and "patterns rl = ps1 @ p # ps2"
    and "\<forall>r' \<in> set rs1. \<forall>p' \<in> set (patterns r'). resolves r' now (preprocessInput input) p' = None"
    and "\<forall>p' \<in> set ps1. resolves rl now (preprocessInput input) p' = None"
    and "resolves rl now (preprocessInput input) p = Some res"
  shows "\<exists>st'. process rules now st input = Inr (Some res, st') \<and>
           cache st' = (cache st)(preprocessInput input \<mapsto> res) \<and>
           err_log st' = err_log st
             @ concat (map (\<lambda>r'. rule_faults r' now (preprocessInput input) (patterns r')) rs1)
             @ rule_faults rl now (preprocessInput input) ps1"
proof -
  let ?c = "preprocessInput input"
  let ?out = "try_rules (rs1 @ rl # rs2) now ?c st"
  have f: "fst ?out = Some res"
    by (rule try_rules_fst_first[OF assms(4) assms(3) assms(5) assms(6)])
  have l: "err_log (snd ?out) = err_log st
      @ concat (map (\<lambda>r'. rule_faults r' now ?c (patterns r')) rs1) @ rule_faults rl now ?c ps1"
    by (rule try_rules_log_first[OF assms(4) assms(3) assms(5) assms(6)])
  have c: "cache (snd ?out) = (cache st)(?c \<mapsto> res)"
    using try_rules_cache[of "rs1 @ rl # rs2" now ?c st] f by simp
  have "process rules now st input = Inr (fst ?out, snd ?out)"
    using assms(1,2) by (simp add: process_def)
  with f l c show ?thesis by auto
qed

text \<open>For \<open>1 meiyuan\<close> (1 US dollar) both patterns of the currency rule match and
  resolve; the first one is taken after the four earlier rules have failed.\<close>

theorem first_match_wins_witness:
  "\<forall>(h :: 'd host) now.
     (\<exists>st'. process (initializeRules h) now new_engine [0x0031, 0x7F8E, 0x5143] =
          Inr (Some \<lparr>r_type = Currency, r_result = Str [0xFF08, 0x0037, 0x002E, 0x0031, 0x0037, 0x0037, 0x0036, 0x0020, 0x4EBA, 0x6C11, 0x5E01, 0xFF09]\<rparr>, st') \<and>
        cache st' = [[0x0031, 0x7F8E, 0x5143] \<mapsto> \<lparr>r_type = Currency, r_result = Str [0xFF08, 0x0037, 0x002E, 0x0031, 0x0037, 0x0037, 0x0036, 0x0020, 0x4EBA, 0x6C11, 0x5E01, 0xFF09]\<rparr>] \<and>
        err_log st' = []) \<and>
     resolves (currency_rule h) now [0x0031, 0x7F8E, 0x5143] currency_suffixed =
       Some \<lparr>r_type = Currency, r_result = Str [0xFF08, 0x0037, 0x002E, 0x0031, 0x0037, 0x0037, 0x0036, 0x0020, 0x4EBA, 0x6C11, 0x5E01, 0xFF09]\<rparr>"
proof (intro allI)
  fix h :: "'d host" and now :: 'd
  let ?c = "[0x0031, 0x7F8E, 0x5143]"
  let ?res = "\<lparr>r_type = Currency, r_result = Str [0xFF08, 0x0037, 0x002E, 0x0031, 0x0037, 0x0037, 0x0036, 0x0020, 0x4EBA, 0x6C11, 0x5E01, 0xFF09]\<rparr>"
  have pre: "preprocessInput ?c = ?c"
    by (simp add: preprocessInput_def trim_def strip_punct_def space_defs is_cn_punct_def)
  have hres: "\<And>m. handleCurrencyConversion h m ?c = Some ?res"
    by (simp add: handler_defs eval_defs parse_one rate_usd_cny mul_one_rate fixed_rate)
  have r1: "\<forall>r' \<in> set [math_rule h, date_rule h, timezone_rule h, unit_rule h].
      \<forall>p' \<in> set (patterns r'). resolves r' now ?c p' = None"
    by (simp add: resolves_def rule_defs eval_defs)
  have r2: "resolves (currency_rule h) now ?c currency_plain = Some ?res"
    by (simp add: resolves_def currency_rule_def hres eval_defs)
  have r3: "resolves (currency_rule h) now ?c currency_suffixed = Some ?res"
    by (simp add: resolves_def currency_rule_def hres eval_defs)
  have nf: "concat (map (\<lambda>r'. rule_faults r' now ?c (patterns r'))
            [math_rule h, date_rule h, timezone_rule h, unit_rule h]) = []"
    by (simp add: rule_faults_def faults_of_def rule_defs eval_defs)
  have "\<exists>st'. process (initializeRules h) now new_engine ?c = Inr (Some ?res, st') \<and>
      cache st' = (cache new_engine)(preprocessInput ?c \<mapsto> ?res) \<and>
      err_log st' = err_log new_engine
        @ concat (map (\<lambda>r'. rule_faults r' now (preprocessInput ?c) (patterns r'))
            [math_rule h, date_rule h, timezone_rule h, unit_rule h])
        @ rule_faults (currency_rule h) now (preprocessInput ?c) []"
    using first_match_wins[of new_engine ?c "initializeRules h"
        "[math_rule h, date_rule h, timezone_rule h, unit_rule h]" "currency_rule h"
        "[formula_rule h]" "[]" currency_plain "[currency_suffixed]" now ?res]
      r1 r2
    by (simp add: pre new_engine_def initializeRules_def currency_rule_def)
  then obtain st' where
    "process (initializeRules h) now new_engine ?c = Inr (Some ?res, st')"
    "cache st' = (cache new_engine)(?c \<mapsto> ?res)"
    "err_log st' = err_log new_engine
        @ concat (map (\<lambda>r'. rule_faults r' now ?c (patterns r'))
            [math_rule h, date_rule h, timezone_rule h, unit_rule h])
        @ rule_faults (currency_rule h) now ?c []"
    unfolding pre by blast
  then have "process (initializeRules h) now new_engine ?c = Inr (Some ?res, st') \<and>
        cache st' = [?c \<mapsto> ?res] \<and> err_log st' = []"
    unfolding nf by (simp add: new_engine_def rule_faults_def)
  then show "(\<exists>st'. process (initializeRules h) now new_engine ?c = Inr (Some ?res, st') \<and>
        cache st' = [?c \<mapsto> ?res] \<and> err_log st' = []) \<and>
     resolves (currency_rule h) now ?c currency_suffixed = Some ?res"
    using r3 by blast
qed

lemmas pre_defs = preprocessInput_def trim_def strip_punct_def space_defs is_cn_punct_def

subsection \<open>C2: arithmetic\<close>

text \<open>
  C2, as the code has it. For a raw input whose normalized form is a literal, white space,
  one of the operators \<open>+ - * /\<close> or \<open>jia\<close>, \<open>jian\<close>, \<open>cheng\<close>, \<open>chu\<close>, white space
  and a literal, where for a division the divisor does not round to the Number zero, in any
  state an engine can reach: \<open>process\<close> returns a Result \<open>calculation\<close> whose display is
  \<open>= \<close> followed by the decimal form (Number to string) of the Number that the operation
  yields on the Numbers nearest to the two literals. No rounding to a number of digits is
  applied. The Result is stored in the cache under the normalized input, and nothing is
  written to the error log.
\<close>

theorem arithmetic_is_floating_point:
  assumes "reachable (initializeRules h) st"
    and "preprocessInput input = a @ w1 @ x # w2 @ b"
    and "numlit a" and "numlit b" and "blank w1" and "blank w2"
    and "x \<in> set [0x2B, 0x2D, 0x2A, 0x2F, 0x52A0, 0x51CF, 0x4E58, 0x9664]"
    and "x = 0x2F \<or> x = 0x9664 \<Longrightarrow> fl (lit_value b) \<noteq> Fin 0"
  shows "process (initializeRules h) now st input =
     Inr (Some \<lparr>r_type = Calculation,
                r_result = Str (asc ''= '' @ num_to_string (binop x (fl (lit_value a)) (fl (lit_value b))))\<rparr>,
          st\<lparr>cache := (cache st)(preprocessInput input \<mapsto>
            \<lparr>r_type = Calculation,
             r_result = Str (asc ''= '' @ num_to_string (binop x (fl (lit_value a)) (fl (lit_value b))))\<rparr>)\<rparr>)"
proof (rule process_resolved[OF assms(1)], intro allI)
  fix now' st'
  have "\<not> ((x = 0x2F \<or> x = 0x9664) \<and> parseFloat b = Fin 0)"
    using assms(8) parseFloat_numlit[OF assms(4)] by auto
  then show "fst (try_rules (initializeRules h) now' (preprocessInput input) st') =
      Some \<lparr>r_type = Calculation,
            r_result = Str (asc ''= '' @ num_to_string (binop x (fl (lit_value a)) (fl (lit_value b))))\<rparr> \<and>
     err_log (snd (try_rules (initializeRules h) now' (preprocessInput input) st')) = err_log st'"
    using try_rules_arithmetic[OF assms(3-7), of h now' st']
    by (auto simp: assms(2) parseFloat_numlit[OF assms(3)] parseFloat_numlit[OF assms(4)])
qed

text \<open>Two inputs: \<open>0.1+0.2\<close>, and \<open>7 cheng 6\<close> with white space and a full stop
  around it.\<close>

theorem arithmetic_is_floating_point_witness:
  "\<forall>(h :: 'd host) now.
     process (initializeRules h) now new_engine [0x0030, 0x002E, 0x0031, 0x002B, 0x0030, 0x002E, 0x0032] =
       Inr (Some \<lparr>r_type = Calculation, r_result = Str [0x003D, 0x0020, 0x0030, 0x002E, 0x0033, 0x0030, 0x0030, 0x0030, 0x0030, 0x0030, 0x0030, 0x0030, 0x0030, 0x0030, 0x0030, 0x0030, 0x0030, 0x0030, 0x0030, 0x0030, 0x0034]\<rparr>,
            \<lparr>cache = [[0x0030, 0x002E, 0x0031, 0x002B, 0x0030, 0x002E, 0x0032] \<mapsto> \<lparr>r_type = Calculation, r_result = Str [0x003D, 0x0020, 0x0030, 0x002E, 0x0033, 0x0030, 0x0030, 0x0030, 0x0030, 0x0030, 0x0030, 0x0030, 0x0030, 0x0030, 0x0030, 0x0030, 0x0030, 0x0030, 0x0030, 0x0030, 0x0034]\<rparr>],
             err_log = []\<rparr>) \<and>
     process (initializeRules h) now new_engine [0x0020, 0x0037, 0x0020, 0x0020, 0x4E58, 0x0020, 0x0036, 0x3002] =
       Inr (Some \<lparr>r_type = Calculation, r_result = Str [0x003D, 0x0020, 0x0034, 0x0032]\<rparr>,
            \<lparr>cache = [[0x0037, 0x0020, 0x4E58, 0x0020, 0x0036] \<mapsto> \<lparr>r_type = Calculation, r_result = Str [0x003D, 0x0020, 0x0034, 0x0032]\<rparr>],
             err_log = []\<rparr>)"
proof (intro allI conjI)
  fix h :: "'d host" and now :: 'd
  have p: "preprocessInput [0x0030, 0x002E, 0x0031, 0x002B, 0x0030, 0x002E, 0x0032] = [0x0030, 0x002E, 0x0031] @ [] @ 0x2B # [] @ [0x0030, 0x002E, 0x0032]"
    by (simp add: pre_defs)
  have n: "numlit [0x0030, 0x002E, 0x0031]" "numlit [0x0030, 0x002E, 0x0032]" "blank []"
    by (simp_all add: numlit_def blank_def is_digit_def)
  have x: "0x2B \<in> set [0x2B, 0x2D, 0x2A, 0x2F, 0x52A0, 0x51CF, 0x4E58, 0x9664 :: nat]"
    by simp
  have d: "(0x2B :: nat) = 0x2F \<or> (0x2B :: nat) = 0x9664 \<Longrightarrow> fl (lit_value [0x0030, 0x002E, 0x0032]) \<noteq> Fin 0"
    by simp
  show "process (initializeRules h) now new_engine [0x0030, 0x002E, 0x0031, 0x002B, 0x0030, 0x002E, 0x0032] =
       Inr (Some \<lparr>r_type = Calculation, r_result = Str [0x003D, 0x0020, 0x0030, 0x002E, 0x0033, 0x0030, 0x0030, 0x0030, 0x0030, 0x0030, 0x0030, 0x0030, 0x0030, 0x0030, 0x0030, 0x0030, 0x0030, 0x0030, 0x0030, 0x0030, 0x0034]\<rparr>,
            \<lparr>cache = [[0x0030, 0x002E, 0x0031, 0x002B, 0x0030, 0x002E, 0x0032] \<mapsto> \<lparr>r_type = Calculation, r_result = Str [0x003D, 0x0020, 0x0030, 0x002E, 0x0033, 0x0030, 0x0030, 0x0030, 0x0030, 0x0030, 0x0030, 0x0030, 0x0030, 0x0030, 0x0030, 0x0030, 0x0030, 0x0030, 0x0030, 0x0030, 0x0034]\<rparr>],
             err_log = []\<rparr>)"
    using arithmetic_is_floating_point[OF reachable.start p n(1) n(2) n(3) n(3) x d, of h now]
    by (simp add: p tenths_sum new_engine_def asc_def)
  have q: "preprocessInput [0x0020, 0x0037, 0x0020, 0x0020, 0x4E58, 0x0020, 0x0036, 0x3002] = [0x0037] @ [0x0020] @ 0x4E58 # [0x0020] @ [0x0036]"
    by (simp add: pre_defs)
  have m: "numlit [0x0037]" "numlit [0x0036]" "blank [0x0020]"
    by (simp_all add: numlit_def blank_def is_digit_def space_defs)
  have y: "0x4E58 \<in> set [0x2B, 0x2D, 0x2A, 0x2F, 0x52A0, 0x51CF, 0x4E58, 0x9664 :: nat]"
    by simp
  have e: "(0x4E58 :: nat) = 0x2F \<or> (0x4E58 :: nat) = 0x9664 \<Longrightarrow> fl (lit_value [0x0036]) \<noteq> Fin 0"
    by simp
  show "process (initializeRules h) now new_engine [0x0020, 0x0037, 0x0020, 0x0020, 0x4E58, 0x0020, 0x0036, 0x3002] =
       Inr (Some \<lparr>r_type = Calculation, r_result = Str [0x003D, 0x0020, 0x0034, 0x0032]\<rparr>,
            \<lparr>cache = [[0x0037, 0x0020, 0x4E58, 0x0020, 0x0036] \<mapsto> \<lparr>r_type = Calculation, r_result = Str [0x003D, 0x0020, 0x0034, 0x0032]\<rparr>],
             err_log = []\<rparr>)"
    using arithmetic_is_floating_point[OF reachable.start q m(1) m(2) m(3) m(3) y e, of h now]
    by (simp add: q seven_times_six new_engine_def asc_def)
qed

text \<open>The display is not the exact value of the expression: for \<open>0.1+0.2\<close> the decimal
  shown is not the sum of the decimals \<open>0.1\<close> and \<open>0.2\<close>.\<close>

theorem arithmetic_is_not_exact:
  "\<forall>(h :: 'd host) now.
     process (initializeRules h) now new_engine [0x0030, 0x002E, 0x0031, 0x002B, 0x0030, 0x002E, 0x0032] =
       Inr (Some \<lparr>r_type = Calculation, r_result = Str ([0x003D, 0x0020] @ [0x0030, 0x002E, 0x0033, 0x0030, 0x0030, 0x0030, 0x0030, 0x0030, 0x0030, 0x0030, 0x0030, 0x0030, 0x0030, 0x0030, 0x0030, 0x0030, 0x0030, 0x0030, 0x0034])\<rparr>,
            \<lparr>cache = [[0x0030, 0x002E, 0x0031, 0x002B, 0x0030, 0x002E, 0x0032] \<mapsto> \<lparr>r_type = Calculation, r_result = Str ([0x003D, 0x0020] @ [0x0030, 0x002E, 0x0033, 0x0030, 0x0030, 0x0030, 0x0030, 0x0030, 0x0030, 0x0030, 0x0030, 0x0030, 0x0030, 0x0030, 0x0030, 0x0030, 0x0030, 0x0030, 0x0034])\<rparr>],
             err_log = []\<rparr>) \<and>
     lit_value [0x0030, 0x002E, 0x0033, 0x0030, 0x0030, 0x0030, 0x0030, 0x0030, 0x0030, 0x0030, 0x0030, 0x0030, 0x0030, 0x0030, 0x0030, 0x0030, 0x0030, 0x0030, 0x0034] \<noteq> lit_value [0x0030, 0x002E, 0x0031] + lit_value [0x0030, 0x002E, 0x0032]"
proof (intro allI conjI)
  fix h :: "'d host" and now :: 'd
  let ?res = "\<lparr>r_type = Calculation, r_result = Str ([0x003D, 0x0020] @ [0x0030, 0x002E, 0x0033, 0x0030, 0x0030, 0x0030, 0x0030, 0x0030, 0x0030, 0x0030, 0x0030, 0x0030, 0x0030, 0x0030, 0x0030, 0x0030, 0x0030, 0x0030, 0x0034])\<rparr>"
  have p: "preprocessInput [0x0030, 0x002E, 0x0031, 0x002B, 0x0030, 0x002E, 0x0032] = [0x0030, 0x002E, 0x0031] @ [] @ 0x2B # [] @ [0x0030, 0x002E, 0x0032]"
    by (simp add: pre_defs)
  have n: "numlit [0x0030, 0x002E, 0x0031]" "numlit [0x0030, 0x002E, 0x0032]" "blank []"
    by (simp_all add: numlit_def blank_def is_digit_def)
  have x: "0x2B \<in> set [0x2B, 0x2D, 0x2A, 0x2F, 0x52A0, 0x51CF, 0x4E58, 0x9664 :: nat]"
    by simp
  have "\<forall>now' st'. fst (try_rules (initializeRules h) now' (preprocessInput [0x0030, 0x002E, 0x0031, 0x002B, 0x0030, 0x002E, 0x0032]) st') = Some ?res \<and>
      err_log (snd (try_rules (initializeRules h) now' (preprocessInput [0x0030, 0x002E, 0x0031, 0x002B, 0x0030, 0x002E, 0x0032]) st')) = err_log st'"
    using try_rules_arithmetic[OF n(1) n(2) n(3) n(3) x, of h]
    by (simp add: p parseFloat_numlit[OF n(1)] parseFloat_numlit[OF n(2)] tenths_sum asc_def)
  from process_resolved[OF reachable.start this, of now]
  show "process (initializeRules h) now new_engine [0x0030, 0x002E, 0x0031, 0x002B, 0x0030, 0x002E, 0x0032] =
       Inr (Some ?res, \<lparr>cache = [[0x0030, 0x002E, 0x0031, 0x002B, 0x0030, 0x002E, 0x0032] \<mapsto> ?res], err_log = []\<rparr>)"
    by (simp add: p new_engine_def)
  show "lit_value [0x0030, 0x002E, 0x0033, 0x0030, 0x0030, 0x0030, 0x0030, 0x0030, 0x0030, 0x0030, 0x0030, 0x0030, 0x0030, 0x0030, 0x0030, 0x0030, 0x0030, 0x0030, 0x0034] \<noteq> lit_value [0x0030, 0x002E, 0x0031] + lit_value [0x0030, 0x002E, 0x0032]"
    by (rule tenths_exact)
qed

subsection \<open>C3: division by zero\<close>

text \<open>
  C3, as the code has it. For a raw input whose normalized form is a literal, white space,
  \<open>/\<close> or \<open>chu\<close>, white space and a literal of value zero, in any state an engine can
  reach: \<open>process\<close> returns a Result \<open>calculation\<close> whose display is \<open>= \<close> followed by
  the notice \<open>chushu buneng wei 0\<close>; it is neither a number nor a fault. The Result is
  stored in the cache under the normalized input.
\<close>

theorem division_by_zero_is_noticed:
  assumes "reachable (initializeRules h) st"
    and "preprocessInput input = a @ w1 @ x # w2 @ b"
    and "numlit a" and "numlit b" and "blank w1" and "blank w2"
    and "x = 0x2F \<or> x = 0x9664"
    and "lit_value b = 0"
  shows "process (initializeRules h) now st input =
     Inr (Some \<lparr>r_type = Calculation, r_result = Str (asc ''= '' @ division_notice)\<rparr>,
          st\<lparr>cache := (cache st)(preprocessInput input \<mapsto>
            \<lparr>r_type = Calculation, r_result = Str (asc ''= '' @ division_notice)\<rparr>)\<rparr>)"
proof (rule process_resolved[OF assms(1)], intro allI)
  fix now' st'
  have x: "x \<in> set [0x2B, 0x2D, 0x2A, 0x2F, 0x52A0, 0x51CF, 0x4E58, 0x9664]"
    using assms(7) by auto
  have "parseFloat b = Fin 0"
    using parseFloat_numlit[OF assms(4)] assms(8) by (simp add: fl_def)
  then show "fst (try_rules (initializeRules h) now' (preprocessInput input) st') =
      Some \<lparr>r_type = Calculation, r_result = Str (asc ''= '' @ division_notice)\<rparr> \<and>
     err_log (snd (try_rules (initializeRules h) now' (preprocessInput input) st')) = err_log st'"
    using try_rules_arithmetic[OF assms(3-6) x, of h now' st'] assms(7)
    by (simp add: assms(2))
qed

text \<open>The input \<open>5 chu 0\<close>.\<close>

theorem division_by_zero_is_noticed_witness:
  "\<forall>(h :: 'd host) now.
     process (initializeRules h) now new_engine [0x0035, 0x9664, 0x0030] =
       Inr (Some \<lparr>r_type = Calculation, r_result = Str [0x003D, 0x0020, 0x9664, 0x6570, 0x4E0D, 0x80FD, 0x4E3A, 0x0030]\<rparr>,
            \<lparr>cache = [[0x0035, 0x9664, 0x0030] \<mapsto> \<lparr>r_type = Calculation, r_result = Str [0x003D, 0x0020, 0x9664, 0x6570, 0x4E0D, 0x80FD, 0x4E3A, 0x0030]\<rparr>],
             err_log = []\<rparr>)"
proof (intro allI)
  fix h :: "'d host" and now :: 'd
  have p: "preprocessInput [0x0035, 0x9664, 0x0030] = [0x0035] @ [] @ 0x9664 # [] @ [0x0030]"
    by (simp add: pre_defs)
  have b: "blank []" by (simp add: blank_def)
  have x: "(0x9664 :: nat) = 0x2F \<or> (0x9664 :: nat) = 0x9664" by simp
  show "process (initializeRules h) now new_engine [0x0035, 0x9664, 0x0030] =
       Inr (Some \<lparr>r_type = Calculation, r_result = Str [0x003D, 0x0020, 0x9664, 0x6570, 0x4E0D, 0x80FD, 0x4E3A, 0x0030]\<rparr>,
            \<lparr>cache = [[0x0035, 0x9664, 0x0030] \<mapsto> \<lparr>r_type = Calculation, r_result = Str [0x003D, 0x0020, 0x9664, 0x6570, 0x4E0D, 0x80FD, 0x4E3A, 0x0030]\<rparr>],
             err_log = []\<rparr>)"
    using division_by_zero_is_noticed[OF reachable.start p zero_values(3) zero_values(2) b b x zero_values(1), of h now]
    by (simp add: p new_engine_def asc_def division_notice_def)
qed

text \<open>The display is not the notice alone: for \<open>5/0\<close> it starts with \<open>= \<close>, as the
  display of every calculation does (line 208).\<close>

theorem division_notice_is_prefixed:
  "\<forall>(h :: 'd host) now.
     process (initializeRules h) now new_engine [0x0035, 0x002F, 0x0030] =
       Inr (Some \<lparr>r_type = Calculation, r_result = Str ([0x003D, 0x0020] @ division_notice)\<rparr>,
            \<lparr>cache = [[0x0035, 0x002F, 0x0030] \<mapsto> \<lparr>r_type = Calculation, r_result = Str ([0x003D, 0x0020] @ division_notice)\<rparr>],
             err_log = []\<rparr>) \<and>
     [0x003D, 0x0020] @ division_notice \<noteq> division_notice"
proof (intro allI conjI)
  fix h :: "'d host" and now :: 'd
  let ?res = "\<lparr>r_type = Calculation, r_result = Str ([0x003D, 0x0020] @ division_notice)\<rparr>"
  have p: "preprocessInput [0x0035, 0x002F, 0x0030] = [0x0035] @ [] @ 0x2F # [] @ [0x0030]"
    by (simp add: pre_defs)
  have b: "blank []" by (simp add: blank_def)
  have x: "0x2F \<in> set [0x2B, 0x2D, 0x2A, 0x2F, 0x52A0, 0x51CF, 0x4E58, 0x9664 :: nat]"
    by simp
  have z: "parseFloat [0x0030] = Fin 0"
    using parseFloat_numlit[OF zero_values(2)] by (simp add: zero_values(1) fl_def)
  have "\<forall>now' st'. fst (try_rules (initializeRules h) now' (preprocessInput [0x0035, 0x002F, 0x0030]) st') = Some ?res \<and>
      err_log (snd (try_rules (initializeRules h) now' (preprocessInput [0x0035, 0x002F, 0x0030]) st')) = err_log st'"
    using try_rules_arithmetic[OF zero_values(3) zero_values(2) b b x, of h]
    by (simp add: p z asc_def)
  from process_resolved[OF reachable.start this, of now]
  show "process (initializeRules h) now new_engine [0x0035, 0x002F, 0x0030] =
       Inr (Some ?res, \<lparr>cache = [[0x0035, 0x002F, 0x0030] \<mapsto> ?res], err_log = []\<rparr>)"
    by (simp add: p new_engine_def)
  show "[0x003D, 0x0020] @ division_notice \<noteq> division_notice"
    by simp
qed

subsection \<open>C5: the normalizer\<close>

lemma preprocessInput_no_punct: "\<not> list_ex is_cn_punct (preprocessInput input)"
  by (simp add: preprocessInput_def strip_punct_def list_ex_iff)

lemma parse_one_plus_one:
  "num_to_string (num_add (parseFloat [0x31]) (parseFloat [0x31])) = [0x32]"
  by (simp add: parse_one num_to_string_def number_to_string_pos_def asc_def num_eval
      cong: let_weak_cong)

lemma one_plus_one:
  "process (initializeRules h) now new_engine [0x0031, 0x002B, 0x0031] =
     Inr (Some \<lparr>r_type = Calculation, r_result = Str [0x003D, 0x0020, 0x0032]\<rparr>,
          \<lparr>cache = [[0x0031, 0x002B, 0x0031] \<mapsto> \<lparr>r_type = Calculation, r_result = Str [0x003D, 0x0020, 0x0032]\<rparr>], err_log = []\<rparr>)"
  by (simp add: process_def pre_defs new_engine_def rule_defs eval_defs handler_defs
      parse_one_plus_one)

text \<open>
  C5. The normalizer is total, and its value holds none of the six punctuation marks. But
  it deletes the punctuation after it has trimmed and collapsed the white space, so the
  white space on both sides of a deleted mark stays: the value can hold a run of two
  white-space characters, and can start or end with white space. The first input below is
  \<open>1\<close>, a space, a full-width comma, a space, \<open>2\<close>; the second is a full-width comma, a
  space, \<open>1+1\<close>, which the anchored patterns then no longer match.
\<close>

theorem preprocessInput_keeps_white_space:
  "preprocessInput [0x0031, 0x0020, 0xFF0C, 0x0020, 0x0032] = [0x0031, 0x0020, 0x0020, 0x0032] \<and>
   preprocessInput [0xFF0C, 0x0020, 0x0031, 0x002B, 0x0031] = [0x0020, 0x0031, 0x002B, 0x0031] \<and>
   process (initializeRules h) now new_engine [0xFF0C, 0x0020, 0x0031, 0x002B, 0x0031] = Inr (None, new_engine)"
  by (simp add: process_def pre_defs new_engine_def rule_defs eval_defs handler_defs)

subsection \<open>C6: faults of handlers\<close>

text \<open>
  C6. A call of \<open>process\<close> never ends in a fault: it settles to a Result or \<open>null\<close>.
  And a handler that raises counts as one that returned \<open>null\<close>: with every raising
  handler of the table replaced by one that returns \<open>null\<close> instead, \<open>process\<close>
  returns the same Result or \<open>null\<close> and leaves the same cache, in every state and for
  every input. So after a fault the dispatch goes on with the next pattern and the next
  rule exactly as after a non-match; the two calls differ in the error log only, which the
  raising handlers extend.
\<close>

theorem handler_fault_is_a_non_match:
  "\<exists>res st'. process rules now st input = Inr (res, st') \<and>
      process (map quiet rules) now st input = Inr (res, st'\<lparr>err_log := err_log st\<rparr>)"
proof (cases "cache st (preprocessInput input)")
  case (Some cached)
  then show ?thesis by (simp add: process_def)
next
  case None
  let ?c = "preprocessInput input"
  let ?a = "try_rules rules now ?c st" and ?q = "try_rules (map quiet rules) now ?c st"
  have f: "fst ?q = fst ?a" by (rule try_rules_quiet_fst)
  have "cache (snd ?q) = cache (snd ?a)"
    using try_rules_cache[of "map quiet rules" now ?c st] try_rules_cache[of rules now ?c st] f
    by simp
  moreover have "err_log (snd ?q) = err_log st" by (rule try_rules_quiet_log)
  ultimately have "snd ?q = (snd ?a)\<lparr>err_log := err_log st\<rparr>"
    by (intro engine.equality) simp_all
  with f have "?q = (fst ?a, (snd ?a)\<lparr>err_log := err_log st\<rparr>)"
    by (metis prod.collapse)
  with None show ?thesis
    by (intro exI[of _ "fst ?a"] exI[of _ "snd ?a"]) (simp add: process_def Let_def)
qed

text \<open>
  Two examples. With a rule whose handler always raises put before the currency rule,
  \<open>1 meiyuan\<close> is still converted by the currency rule, and the fault is in the log.
  For \<open>constructor shijian\<close> the city pattern of the real table matches, the lookup
  yields the constructor inherited from \<open>Object.prototype\<close>, the formatter raises, and
  the dispatch goes on through the remaining patterns and rules to \<open>null\<close>.
\<close>

theorem handler_fault_is_a_non_match_witness:
  "\<forall>(h :: 'd host) now.
     process [\<lparr>category = asc ''bad'', priority = 0, patterns = [currency_plain],
                handler = (\<lambda>now m input. Inl (RangeError []))\<rparr>, currency_rule h]
         now new_engine [0x0031, 0x7F8E, 0x5143] =
       Inr (Some \<lparr>r_type = Currency, r_result = Str [0xFF08, 0x0037, 0x002E, 0x0031, 0x0037, 0x0037, 0x0036, 0x0020, 0x4EBA, 0x6C11, 0x5E01, 0xFF09]\<rparr>,
            \<lparr>cache = [[0x0031, 0x7F8E, 0x5143] \<mapsto> \<lparr>r_type = Currency, r_result = Str [0xFF08, 0x0037, 0x002E, 0x0031, 0x0037, 0x0037, 0x0036, 0x0020, 0x4EBA, 0x6C11, 0x5E01, 0xFF09]\<rparr>],
             err_log = [([0x0062, 0x0061, 0x0064], RangeError [])]\<rparr>) \<and>
     js_match timezone_city [0x0063, 0x006F, 0x006E, 0x0073, 0x0074, 0x0072, 0x0075, 0x0063, 0x0074, 0x006F, 0x0072, 0x65F6, 0x95F4] \<noteq> None \<and>
     (\<forall>m. handleTimezoneQuery h now m [0x0063, 0x006F, 0x006E, 0x0073, 0x0074, 0x0072, 0x0075, 0x0063, 0x0074, 0x006F, 0x0072, 0x65F6, 0x95F4] = Inl (RangeError [0x0063, 0x006F, 0x006E, 0x0073, 0x0074, 0x0072, 0x0075, 0x0063, 0x0074, 0x006F, 0x0072])) \<and>
     process (initializeRules h) now new_engine [0x0063, 0x006F, 0x006E, 0x0073, 0x0074, 0x0072, 0x0075, 0x0063, 0x0074, 0x006F, 0x0072, 0x65F6, 0x95F4] =
       Inr (None, \<lparr>cache = Map.empty, err_log = [([0x0074, 0x0069, 0x006D, 0x0065, 0x007A, 0x006F, 0x006E, 0x0065], RangeError [0x0063, 0x006F, 0x006E, 0x0073, 0x0074, 0x0072, 0x0075, 0x0063, 0x0074, 0x006F, 0x0072])]\<rparr>) \<and>
     process (map quiet (initializeRules h)) now new_engine [0x0063, 0x006F, 0x006E, 0x0073, 0x0074, 0x0072, 0x0075, 0x0063, 0x0074, 0x006F, 0x0072, 0x65F6, 0x95F4] =
       Inr (None, new_engine)"
proof (intro allI)
  fix h :: "'d host" and now :: 'd
  let ?c = "[0x0063, 0x006F, 0x006E, 0x0073, 0x0074, 0x0072, 0x0075, 0x0063, 0x0074, 0x006F, 0x0072, 0x65F6, 0x95F4]" and ?u = "[0x0031, 0x7F8E, 0x5143]"
  let ?res = "\<lparr>r_type = Currency, r_result = Str [0xFF08, 0x0037, 0x002E, 0x0031, 0x0037, 0x0037, 0x0036, 0x0020, 0x4EBA, 0x6C11, 0x5E01, 0xFF09]\<rparr>"
  let ?bad = "\<lparr>category = asc ''bad'', priority = 0, patterns = [currency_plain],
                handler = (\<lambda>now m input. Inl (RangeError [])) :: 'd \<Rightarrow> rmatch \<Rightarrow> jstring \<Rightarrow> fault + result option\<rparr>"
  have hres: "\<And>m. handleCurrencyConversion h m ?u = Some ?res"
    by (simp add: handler_defs eval_defs parse_one rate_usd_cny mul_one_rate fixed_rate)
  have mu: "js_match currency_plain ?u \<noteq> None"
    by (simp add: eval_defs)
  have 1: "process [?bad, currency_rule h] now new_engine ?u =
       Inr (Some ?res, \<lparr>cache = [?u \<mapsto> ?res], err_log = [([0x0062, 0x0061, 0x0064], RangeError [])]\<rparr>)"
    using mu by (auto simp: process_def pre_defs new_engine_def currency_rule_def hres asc_def)
  have m: "js_match timezone_city ?c =
      Some \<lparr>m_index = 0, m_end = 13, m_groups = [1 \<mapsto> [0x0063, 0x006F, 0x006E, 0x0073, 0x0074, 0x0072, 0x0075, 0x0063, 0x0074, 0x006F, 0x0072]]\<rparr>"
    by (simp add: eval_defs)
  have f: "\<And>m. handleTimezoneQuery h now m ?c = Inl (RangeError [0x0063, 0x006F, 0x006E, 0x0073, 0x0074, 0x0072, 0x0075, 0x0063, 0x0074, 0x006F, 0x0072])"
    by (simp add: handler_defs m asc_def)
  have 2: "process (initializeRules h) now new_engine ?c =
       Inr (None, \<lparr>cache = Map.empty, err_log = [([0x0074, 0x0069, 0x006D, 0x0065, 0x007A, 0x006F, 0x006E, 0x0065], RangeError [0x0063, 0x006F, 0x006E, 0x0073, 0x0074, 0x0072, 0x0075, 0x0063, 0x0074, 0x006F, 0x0072])]\<rparr>)"
    by (simp add: process_def pre_defs new_engine_def rule_defs eval_defs f)
  have 3: "process (map quiet (initializeRules h)) now new_engine ?c = Inr (None, new_engine)"
    using handler_fault_is_a_non_match[of "initializeRules h" now new_engine ?c] 2
    by (simp add: new_engine_def)
  from 1 m f 2 3 show "process [?bad, currency_rule h] now new_engine ?u =
       Inr (Some ?res, \<lparr>cache = [?u \<mapsto> ?res], err_log = [([0x0062, 0x0061, 0x0064], RangeError [])]\<rparr>) \<and>
     js_match timezone_city ?c \<noteq> None \<and>
     (\<forall>m. handleTimezoneQuery h now m ?c = Inl (RangeError [0x0063, 0x006F, 0x006E, 0x0073, 0x0074, 0x0072, 0x0075, 0x0063, 0x0074, 0x006F, 0x0072])) \<and>
     process (initializeRules h) now new_engine ?c =
       Inr (None, \<lparr>cache = Map.empty, err_log = [([0x0074, 0x0069, 0x006D, 0x0065, 0x007A, 0x006F, 0x006E, 0x0065], RangeError [0x0063, 0x006F, 0x006E, 0x0073, 0x0074, 0x0072, 0x0075, 0x0063, 0x0074, 0x006F, 0x0072])]\<rparr>) \<and>
     process (map quiet (initializeRules h)) now new_engine ?c = Inr (None, new_engine)"
    by simp
qed

subsection \<open>C7: currency conversion\<close>



subsection \<open>C9: next week and last week\<close>

text \<open>
  C9. For a raw input whose normalized form is \<open>xiazhou\<close> (next week) or \<open>shangzhou\<close>
  (last week), in any state an engine can reach: the second pattern of the date rule
  matches, the table of special dates has no entry for the input, the date handler returns
  \<open>null\<close>, and \<open>process\<close> returns \<open>null\<close> and leaves the state as it was. The
  examples of the interactive shell list \<open>xiazhou\<close> under its date category.
\<close>

lemma next_week_facts:
  assumes "c = [0x4E0B, 0x5468] \<or> c = [0x4E0A, 0x5468]"
  shows "try_rules (initializeRules h) now c st = (None, st)"
    and "js_match date_deictic c \<noteq> None"
    and "map_of specialDates c = None"
    and "handleDateCalculation h now m c = None"
proof -
  have x: "try_rules (initializeRules h) now [0x4E0B, 0x5468] st = (None, st)"
    by (simp add: rule_defs eval_defs handler_defs)
  have s: "try_rules (initializeRules h) now [0x4E0A, 0x5468] st = (None, st)"
    by (simp add: rule_defs eval_defs handler_defs)
  show "try_rules (initializeRules h) now c st = (None, st)"
    using assms x s by blast
  have x: "js_match date_deictic [0x4E0B, 0x5468] \<noteq> None" "js_match date_deictic [0x4E0A, 0x5468] \<noteq> None"
    by (simp_all add: eval_defs)
  then show "js_match date_deictic c \<noteq> None"
    using assms by blast
  have "map_of specialDates [0x4E0B, 0x5468] = None" "map_of specialDates [0x4E0A, 0x5468] = None"
    by (simp_all add: specialDates_def)
  then show "map_of specialDates c = None"
    using assms by blast
  have "handleDateCalculation h now m [0x4E0B, 0x5468] = None" "handleDateCalculation h now m [0x4E0A, 0x5468] = None"
    by (simp_all add: eval_defs handler_defs)
  then show "handleDateCalculation h now m c = None"
    using assms by blast
qed

theorem next_week_is_not_resolved:
  assumes "reachable (initializeRules h) st"
    and "preprocessInput input = [0x4E0B, 0x5468] \<or> preprocessInput input = [0x4E0A, 0x5468]"
  shows "js_match date_deictic (preprocessInput input) \<noteq> None \<and>
         map_of specialDates (preprocessInput input) = None \<and>
         handleDateCalculation h now m (preprocessInput input) = None \<and>
         process (initializeRules h) now st input = Inr (None, st) \<and>
         [0x4E0B, 0x5468] \<in> set (the (map_of showExamples_items [0x65E5, 0x671F, 0x65F6, 0x95F4]))"
proof -
  have "\<forall>now' st'. try_rules (initializeRules h) now' (preprocessInput input) st' = (None, st')"
    by (simp add: next_week_facts(1)[OF assms(2)])
  then have "process (initializeRules h) now st input = Inr (None, st)"
    by (rule process_unresolved[OF assms(1)])
  moreover have "[0x4E0B, 0x5468] \<in> set (the (map_of showExamples_items [0x65E5, 0x671F, 0x65F6, 0x95F4]))"
    by (simp add: showExamples_items_def)
  ultimately show ?thesis
    using next_week_facts(2,3)[OF assms(2)] next_week_facts(4)[OF assms(2), of h now m] by simp
qed

theorem next_week_is_not_resolved_witness:
  "\<forall>(h :: 'd host) now m.
     preprocessInput [0x0020, 0x4E0B, 0x5468, 0x3002] = [0x4E0B, 0x5468] \<and>
     js_match date_deictic [0x4E0B, 0x5468] \<noteq> None \<and>
     handleDateCalculation h now m [0x4E0B, 0x5468] = None \<and>
     process (initializeRules h) now new_engine [0x0020, 0x4E0B, 0x5468, 0x3002] = Inr (None, new_engine)"
proof (intro allI)
  fix h :: "'d host" and now :: 'd and m
  have pre: "preprocessInput [0x0020, 0x4E0B, 0x5468, 0x3002] = [0x4E0B, 0x5468]"
    by (simp add: pre_defs)
  show "preprocessInput [0x0020, 0x4E0B, 0x5468, 0x3002] = [0x4E0B, 0x5468] \<and>
     js_match date_deictic [0x4E0B, 0x5468] \<noteq> None \<and>
     handleDateCalculation h now m [0x4E0B, 0x5468] = None \<and>
     process (initializeRules h) now new_engine [0x0020, 0x4E0B, 0x5468, 0x3002] = Inr (None, new_engine)"
    using next_week_is_not_resolved[of h new_engine "[0x0020, 0x4E0B, 0x5468, 0x3002]" now m] pre
    by (simp add: reachable.start)
qed

end
